theory Spec2Isabelle
  imports Complex_Main
begin

section \<open>Prescriptive deck code engine\<close>

text \<open>
  A shallow embedding of \<^verbatim>\<open>src/domain/models.py\<close> and \<^verbatim>\<open>src/domain/code_engine.py\<close>.

  Conventions of the embedding:
  \<^item> a Python \<^verbatim>\<open>float\<close> is a \<open>real\<close>: table entries, spans and elevations are exact
    rationals, \<^verbatim>\<open>math.sqrt\<close> is \<open>sqrt\<close> and \<^verbatim>\<open>math.pi\<close> is \<open>pi\<close>; rounding of the
    binary representation, infinities and NaN are outside the model;
  \<^item> a Python \<^verbatim>\<open>int\<close> is an \<open>int\<close>, a \<^verbatim>\<open>str\<close> a \<open>string\<close>, a \<^verbatim>\<open>dict\<close> a map;
  \<^item> a formatted message (an f-string) is its template together with the values
    interpolated into it, a constructor of \<open>message\<close>;
  \<^item> a function that can raise returns \<open>exception + 'a\<close>, \<open>Inl\<close> being the exception;
  \<^item> a leading underscore of a Python name is dropped, and a field name shared by
    several classes is prefixed with the class.
\<close>

subsection \<open>Data model (models.py)\<close>

datatype DeckingType = COMPOSITE_TREX | COMPOSITE_TIMBERTECH | CEDAR | PRESSURE_TREATED

datatype RailingType = NONE | WOOD | CABLE | GLASS | ALUMINUM

datatype LedgerAttachment = DIRECT | STANDOFF | FREESTANDING

record LumberSpec =
  nominal :: string
  width_in :: real
  height_in :: real

definition lumber_width_ft :: "LumberSpec \<Rightarrow> real" where
  "lumber_width_ft l = width_in l / 12"

definition lumber_height_ft :: "LumberSpec \<Rightarrow> real" where
  "lumber_height_ft l = height_in l / 12"

definition mk_LumberSpec :: "string \<Rightarrow> real \<Rightarrow> real \<Rightarrow> LumberSpec" where
  "mk_LumberSpec n w h = \<lparr>nominal = n, width_in = w, height_in = h\<rparr>"

definition LUMBER_SPECS :: "string \<rightharpoonup> LumberSpec" where
  "LUMBER_SPECS = map_of
     [(''2x6'', mk_LumberSpec ''2x6'' 1.5 5.5),
      (''2x8'', mk_LumberSpec ''2x8'' 1.5 7.25),
      (''2x10'', mk_LumberSpec ''2x10'' 1.5 9.25),
      (''2x12'', mk_LumberSpec ''2x12'' 1.5 11.25),
      (''4x4'', mk_LumberSpec ''4x4'' 3.5 3.5),
      (''4x6'', mk_LumberSpec ''4x6'' 3.5 5.5),
      (''4x8'', mk_LumberSpec ''4x8'' 3.5 7.25),
      (''4x10'', mk_LumberSpec ''4x10'' 3.5 9.25),
      (''4x12'', mk_LumberSpec ''4x12'' 3.5 11.25),
      (''6x6'', mk_LumberSpec ''6x6'' 5.5 5.5)]"

record SiteInput =
  width_ft :: real
  depth_ft :: real
  height_ft :: real
  ledger_attachment :: LedgerAttachment
  soil_bearing_psf :: int
  frost_depth_in :: int
  slope_percent :: real
  decking_type :: DeckingType
  railing_type :: RailingType
  railing_lf :: real
  stair_count :: int
  customer_name :: string
  site_address :: string

text \<open>The constructor call \<^verbatim>\<open>SiteInput(width_ft, depth_ft, height_ft)\<close> with every
  other field at its declared default.\<close>

definition mk_SiteInput :: "real \<Rightarrow> real \<Rightarrow> real \<Rightarrow> SiteInput" where
  "mk_SiteInput w d h =
     \<lparr>width_ft = w, depth_ft = d, height_ft = h, ledger_attachment = DIRECT,
      soil_bearing_psf = 1500, frost_depth_in = 18, slope_percent = 0,
      decking_type = COMPOSITE_TREX, railing_type = NONE, railing_lf = 0,
      stair_count = 0, customer_name = [], site_address = []\<rparr>"

record Footing =
  footing_x_ft :: real
  footing_y_ft :: real
  footing_diameter_in :: int
  footing_depth_in :: int

record Post =
  post_x_ft :: real
  post_y_ft :: real
  post_height_ft :: real
  post_lumber :: LumberSpec

record Beam =
  beam_x_start_ft :: real
  beam_x_end_ft :: real
  beam_y_ft :: real
  beam_z_ft :: real
  beam_lumber :: LumberSpec
  beam_ply :: int

record Joist =
  joist_x_ft :: real
  joist_y_start_ft :: real
  joist_y_end_ft :: real
  joist_z_ft :: real
  joist_lumber :: LumberSpec

text \<open>The ledger is a \<^verbatim>\<open>dict\<close> with six fixed keys.\<close>

record Ledger =
  ledger_x_start_ft :: real
  ledger_x_end_ft :: real
  ledger_y_ft :: real
  ledger_z_ft :: real
  ledger_lumber :: LumberSpec
  ledger_attachment_value :: LedgerAttachment

text \<open>A rim joist is a \<^verbatim>\<open>dict\<close> of one of two shapes: a side rim (location, x, y start,
  y end, lumber) or the outer rim (location, x start, x end, y, lumber).\<close>

datatype RimJoist =
  SideRim string real real real LumberSpec
| OuterRim string real real real LumberSpec

datatype message =
  CantileverMsg real real real
| JoistSpanMsg real int real
| BeamSpanMsg real string
| MathDomainMsg
| JoistNote string int real
| BeamNote int string real int
| PostVerifyNote string real
| PostNote string real
| FootingNote int int real
| JoistCountNote int

datatype exception = ValueError message | ZeroDivisionError | KeyError string

record DeckStructure =
  input :: SiteInput
  footings :: "Footing list"
  posts :: "Post list"
  beams :: "Beam list"
  joists :: "Joist list"
  ledger :: "Ledger option"
  rim_joists :: "RimJoist list"
  joist_size :: string
  joist_spacing_in :: int
  beam_size :: string
  structure_beam_ply :: int
  post_size :: string
  structure_footing_diameter_in :: int
  compliant :: bool
  structure_notes :: "message list"
  errors :: "message list"

text \<open>The constructor call \<^verbatim>\<open>DeckStructure(input=site_input)\<close>.\<close>

definition mk_DeckStructure :: "SiteInput \<Rightarrow> DeckStructure" where
  "mk_DeckStructure site_input =
     \<lparr>input = site_input, footings = [], posts = [], beams = [], joists = [],
      ledger = None, rim_joists = [], joist_size = [], joist_spacing_in = 16,
      beam_size = [], structure_beam_ply = 2, post_size = [],
      structure_footing_diameter_in = 12, compliant = True, structure_notes = [], errors = []\<rparr>"

subsection \<open>Tables and constants (code_engine.py)\<close>

definition dict_get :: "('k \<rightharpoonup> 'v) \<Rightarrow> 'k \<Rightarrow> 'v \<Rightarrow> 'v" where
  "dict_get m k d = (case m k of None \<Rightarrow> d | Some v \<Rightarrow> v)"

definition dict_index :: "(string \<rightharpoonup> 'v) \<Rightarrow> string \<Rightarrow> exception + 'v" where
  "dict_index m k = (case m k of None \<Rightarrow> Inl (KeyError k) | Some v \<Rightarrow> Inr v)"

definition JOIST_SPANS :: "(string \<times> int) \<rightharpoonup> real" where
  "JOIST_SPANS = map_of
     [((''2x6'', 12), 10.5), ((''2x6'', 16), 9.5), ((''2x6'', 24), 8.0),
      ((''2x8'', 12), 13.83), ((''2x8'', 16), 12.5), ((''2x8'', 24), 10.5),
      ((''2x10'', 12), 17.67), ((''2x10'', 16), 16.0), ((''2x10'', 24), 13.5),
      ((''2x12'', 12), 21.5), ((''2x12'', 16), 19.5), ((''2x12'', 24), 16.5)]"

definition BEAM_SPANS :: "(string \<times> string) \<rightharpoonup> real" where
  "BEAM_SPANS = map_of
     [((''2-2x6'', ''6''), 5.5), ((''2-2x6'', ''8''), 4.5),
      ((''2-2x6'', ''10''), 4.0), ((''2-2x6'', ''12''), 3.5),
      ((''2-2x8'', ''6''), 7.0), ((''2-2x8'', ''8''), 6.0),
      ((''2-2x8'', ''10''), 5.5), ((''2-2x8'', ''12''), 5.0),
      ((''2-2x10'', ''6''), 9.0), ((''2-2x10'', ''8''), 8.0),
      ((''2-2x10'', ''10''), 7.0), ((''2-2x10'', ''12''), 6.5),
      ((''2-2x12'', ''6''), 11.0), ((''2-2x12'', ''8''), 9.5),
      ((''2-2x12'', ''10''), 8.5), ((''2-2x12'', ''12''), 7.5),
      ((''4x6'', ''6''), 5.5), ((''4x6'', ''8''), 4.5),
      ((''4x6'', ''10''), 4.0), ((''4x6'', ''12''), 3.5),
      ((''4x8'', ''6''), 7.0), ((''4x8'', ''8''), 6.0),
      ((''4x8'', ''10''), 5.5), ((''4x8'', ''12''), 5.0),
      ((''4x10'', ''6''), 9.0), ((''4x10'', ''8''), 8.0),
      ((''4x10'', ''10''), 7.0), ((''4x10'', ''12''), 6.5),
      ((''4x12'', ''6''), 11.0), ((''4x12'', ''8''), 9.5),
      ((''4x12'', ''10''), 8.5), ((''4x12'', ''12''), 7.5)]"

definition POST_HEIGHT_LIMITS :: "string \<rightharpoonup> real" where
  "POST_HEIGHT_LIMITS = map_of [(''4x4'', 8.0), (''4x6'', 14.0), (''6x6'', 20.0)]"

definition DEAD_LOAD_PSF :: real where "DEAD_LOAD_PSF = 15.0"
definition LIVE_LOAD_PSF :: real where "LIVE_LOAD_PSF = 40.0"
definition TOTAL_LOAD_PSF :: real where "TOTAL_LOAD_PSF = DEAD_LOAD_PSF + LIVE_LOAD_PSF"
definition MAX_CANTILEVER_RATIO :: real where "MAX_CANTILEVER_RATIO = 0.25"

subsection \<open>Size selectors\<close>

definition get_joist_span_category :: "real \<Rightarrow> string" where
  "get_joist_span_category joist_span_ft =
     (if joist_span_ft \<le> 6 then ''6''
      else if joist_span_ft \<le> 8 then ''8''
      else if joist_span_ft \<le> 10 then ''10''
      else ''12'')"

text \<open>The \<^verbatim>\<open>for size in [...]\<close> loop of \<^verbatim>\<open>_select_joist_size\<close>: \<open>None\<close> when the loop
  runs to its end without returning. The table is a parameter; the source reads the
  global \<^verbatim>\<open>JOIST_SPANS\<close>.\<close>

fun select_joist_loop ::
  "((string \<times> int) \<rightharpoonup> real) \<Rightarrow> real \<Rightarrow> int \<Rightarrow> string list \<Rightarrow> string option" where
  "select_joist_loop tbl span_ft spacing_in [] = None"
| "select_joist_loop tbl span_ft spacing_in (sz # rest) =
     (let max_span = dict_get tbl (sz, spacing_in) 0
      in if max_span \<ge> span_ft then Some sz
         else select_joist_loop tbl span_ft spacing_in rest)"

definition joist_sizes :: "string list" where
  "joist_sizes = [''2x6'', ''2x8'', ''2x10'', ''2x12'']"

definition select_joist_size_in ::
  "((string \<times> int) \<rightharpoonup> real) \<Rightarrow> real \<Rightarrow> int \<Rightarrow> exception + string" where
  "select_joist_size_in tbl span_ft spacing_in =
     (case select_joist_loop tbl span_ft spacing_in joist_sizes of
        Some sz \<Rightarrow> Inr sz
      | None \<Rightarrow> Inl (ValueError
          (JoistSpanMsg span_ft spacing_in (dict_get tbl (''2x12'', spacing_in) 0))))"

definition select_joist_size :: "real \<Rightarrow> int \<Rightarrow> exception + string" where
  "select_joist_size span_ft spacing_in = select_joist_size_in JOIST_SPANS span_ft spacing_in"

fun select_beam_loop :: "real \<Rightarrow> string \<Rightarrow> string list \<Rightarrow> (string \<times> int) option" where
  "select_beam_loop beam_span_ft joist_cat [] = None"
| "select_beam_loop beam_span_ft joist_cat (sz # rest) =
     (let config = ''2-'' @ sz;
          max_span = dict_get BEAM_SPANS (config, joist_cat) 0
      in if max_span \<ge> beam_span_ft then Some (sz, 2)
         else select_beam_loop beam_span_ft joist_cat rest)"

definition select_beam_size :: "real \<Rightarrow> real \<Rightarrow> exception + (string \<times> int)" where
  "select_beam_size beam_span_ft joist_span_ft =
     (let joist_cat = get_joist_span_category joist_span_ft
      in case select_beam_loop beam_span_ft joist_cat joist_sizes of
           Some r \<Rightarrow> Inr r
         | None \<Rightarrow> Inl (ValueError (BeamSpanMsg beam_span_ft joist_cat)))"

text \<open>The loop of \<^verbatim>\<open>_select_post_size\<close> indexes \<^verbatim>\<open>POST_HEIGHT_LIMITS[size]\<close>, which raises
  \<^verbatim>\<open>KeyError\<close> on a missing key; \<open>Inr None\<close> is the loop running to its end. The
  parameter \<^verbatim>\<open>height_ft\<close> is written \<open>h_ft\<close>.\<close>

fun select_post_loop :: "real \<Rightarrow> string list \<Rightarrow> exception + string option" where
  "select_post_loop h_ft [] = Inr None"
| "select_post_loop h_ft (sz # rest) =
     (case dict_index POST_HEIGHT_LIMITS sz of
        Inl e \<Rightarrow> Inl e
      | Inr limit \<Rightarrow>
          if limit \<ge> h_ft then Inr (Some sz) else select_post_loop h_ft rest)"

definition post_sizes :: "string list" where
  "post_sizes = [''4x4'', ''4x6'', ''6x6'']"

definition select_post_size :: "real \<Rightarrow> exception + string" where
  "select_post_size h_ft =
     (case select_post_loop h_ft post_sizes of
        Inl e \<Rightarrow> Inl e
      | Inr (Some sz) \<Rightarrow> Inr sz
      | Inr None \<Rightarrow> Inr ''6x6'')"

subsection \<open>Footing diameter\<close>

definition standard_sizes :: "int list" where
  "standard_sizes = [12, 14, 16, 18, 20, 24]"

fun footing_loop :: "real \<Rightarrow> int list \<Rightarrow> int option" where
  "footing_loop required_diameter [] = None"
| "footing_loop required_diameter (sz # rest) =
     (if real_of_int sz \<ge> required_diameter then Some sz
      else footing_loop required_diameter rest)"

text \<open>The local \<^verbatim>\<open>required_area_sqin\<close> and \<^verbatim>\<open>required_diameter\<close> of
  \<^verbatim>\<open>_calculate_footing_diameter\<close>, as functions of its arguments.\<close>

definition required_area_sqin :: "real \<Rightarrow> int \<Rightarrow> real" where
  "required_area_sqin tributary_area_sqft soil_bearing =
     ((tributary_area_sqft * TOTAL_LOAD_PSF) / real_of_int soil_bearing) * 144"

definition required_diameter :: "real \<Rightarrow> int \<Rightarrow> real" where
  "required_diameter tributary_area_sqft soil_bearing =
     2 * sqrt (required_area_sqin tributary_area_sqft soil_bearing / pi)"

text \<open>The division raises \<^verbatim>\<open>ZeroDivisionError\<close> on a zero bearing capacity and
  \<^verbatim>\<open>math.sqrt\<close> raises \<^verbatim>\<open>ValueError\<close> on a negative argument.\<close>

definition calculate_footing_diameter :: "real \<Rightarrow> int \<Rightarrow> exception + int" where
  "calculate_footing_diameter tributary_area_sqft soil_bearing =
     (if soil_bearing = 0 then Inl ZeroDivisionError
      else if required_area_sqin tributary_area_sqft soil_bearing / pi < 0
      then Inl (ValueError MathDomainMsg)
      else case footing_loop (required_diameter tributary_area_sqft soil_bearing)
                  standard_sizes of
             Some sz \<Rightarrow> Inr sz
           | None \<Rightarrow> Inr 24)"

subsection \<open>Structure assembly: locals of \<^verbatim>\<open>generate_structure\<close>\<close>

text \<open>Lines 157 to 166: the cantilever and the joist span by attachment mode. (The local
  \<^verbatim>\<open>beam_count\<close> assigned there is never read.)\<close>

definition cantilever_ft :: "SiteInput \<Rightarrow> real" where
  "cantilever_ft site_input =
     (if ledger_attachment site_input = FREESTANDING then 0
      else min 2 (depth_ft site_input * MAX_CANTILEVER_RATIO))"

definition joist_span_ft :: "SiteInput \<Rightarrow> real" where
  "joist_span_ft site_input =
     (if ledger_attachment site_input = FREESTANDING then depth_ft site_input / 2
      else depth_ft site_input - cantilever_ft site_input)"

text \<open>Lines 190 to 193 and 215: the elevation stack.\<close>

definition decking_thickness_ft :: real where
  "decking_thickness_ft = 1 / 12"

definition joist_top_z :: "SiteInput \<Rightarrow> real" where
  "joist_top_z site_input = height_ft site_input - decking_thickness_ft"

definition joist_bottom_z :: "SiteInput \<Rightarrow> LumberSpec \<Rightarrow> real" where
  "joist_bottom_z site_input j_lumber = joist_top_z site_input - lumber_height_ft j_lumber"

definition beam_top_z :: "SiteInput \<Rightarrow> LumberSpec \<Rightarrow> real" where
  "beam_top_z site_input j_lumber = joist_bottom_z site_input j_lumber"

definition beam_bottom_z :: "SiteInput \<Rightarrow> LumberSpec \<Rightarrow> LumberSpec \<Rightarrow> real" where
  "beam_bottom_z site_input j_lumber b_lumber =
     beam_top_z site_input j_lumber - lumber_height_ft b_lumber"

text \<open>Lines 197 to 199: post count and beam span.\<close>

definition target_beam_span :: real where
  "target_beam_span = 8.0"

definition num_posts :: "SiteInput \<Rightarrow> int" where
  "num_posts site_input = max 2 (\<lceil>width_ft site_input / target_beam_span\<rceil> + 1)"

definition actual_beam_span :: "SiteInput \<Rightarrow> real" where
  "actual_beam_span site_input =
     width_ft site_input / real_of_int (num_posts site_input - 1)"

text \<open>Python's \<^verbatim>\<open>range(n)\<close>: empty when \<open>n \<le> 0\<close>.\<close>

definition range_int :: "int \<Rightarrow> int list" where
  "range_int n = map int [0..<nat n]"

text \<open>Lines 240 to 243.\<close>

definition beam_y_positions :: "SiteInput \<Rightarrow> real list" where
  "beam_y_positions site_input =
     (if ledger_attachment site_input = FREESTANDING
      then [depth_ft site_input / 3, 2 * depth_ft site_input / 3]
      else [depth_ft site_input - cantilever_ft site_input])"

text \<open>Lines 246 to 262: the nested loop appends one footing and one post per beam row
  and post index; the two lists it fills are given separately.\<close>

definition gen_footings :: "SiteInput \<Rightarrow> int \<Rightarrow> Footing list" where
  "gen_footings site_input footing_diameter =
     concat (map (\<lambda>beam_y. map (\<lambda>i.
        \<lparr>footing_x_ft = - (width_ft site_input / 2) + real_of_int i * actual_beam_span site_input,
         footing_y_ft = beam_y,
         footing_diameter_in = footing_diameter,
         footing_depth_in = frost_depth_in site_input\<rparr>)
       (range_int (num_posts site_input))) (beam_y_positions site_input))"

definition gen_posts :: "SiteInput \<Rightarrow> real \<Rightarrow> LumberSpec \<Rightarrow> Post list" where
  "gen_posts site_input p_height_ft p_lumber =
     concat (map (\<lambda>beam_y. map (\<lambda>i.
        \<lparr>post_x_ft = - (width_ft site_input / 2) + real_of_int i * actual_beam_span site_input,
         post_y_ft = beam_y,
         post_height_ft = p_height_ft,
         post_lumber = p_lumber\<rparr>)
       (range_int (num_posts site_input))) (beam_y_positions site_input))"

text \<open>Lines 265 to 273.\<close>

definition gen_beams :: "SiteInput \<Rightarrow> real \<Rightarrow> LumberSpec \<Rightarrow> int \<Rightarrow> Beam list" where
  "gen_beams site_input b_bottom_z b_lumber b_ply =
     map (\<lambda>beam_y.
        \<lparr>beam_x_start_ft = - width_ft site_input / 2,
         beam_x_end_ft = width_ft site_input / 2,
         beam_y_ft = beam_y,
         beam_z_ft = b_bottom_z,
         beam_lumber = b_lumber,
         beam_ply = b_ply\<rparr>) (beam_y_positions site_input)"

text \<open>Lines 276 to 290.\<close>

definition joist_spacing_ft :: "int \<Rightarrow> real" where
  "joist_spacing_ft spacing_in = real_of_int spacing_in / 12"

definition num_joists :: "SiteInput \<Rightarrow> int \<Rightarrow> int" where
  "num_joists site_input spacing_in =
     \<lfloor>width_ft site_input / joist_spacing_ft spacing_in\<rfloor> + 1"

definition total_joist_width :: "SiteInput \<Rightarrow> int \<Rightarrow> real" where
  "total_joist_width site_input spacing_in =
     real_of_int (num_joists site_input spacing_in - 1) * joist_spacing_ft spacing_in"

definition joist_start_x :: "SiteInput \<Rightarrow> int \<Rightarrow> real" where
  "joist_start_x site_input spacing_in = - total_joist_width site_input spacing_in / 2"

definition gen_joists :: "SiteInput \<Rightarrow> int \<Rightarrow> real \<Rightarrow> LumberSpec \<Rightarrow> Joist list" where
  "gen_joists site_input spacing_in j_bottom_z j_lumber =
     map (\<lambda>i.
        \<lparr>joist_x_ft = joist_start_x site_input spacing_in
                        + real_of_int i * joist_spacing_ft spacing_in,
         joist_y_start_ft = (if ledger_attachment site_input \<noteq> FREESTANDING then 0 else 0),
         joist_y_end_ft = depth_ft site_input,
         joist_z_ft = j_bottom_z,
         joist_lumber = j_lumber\<rparr>) (range_int (num_joists site_input spacing_in))"

text \<open>Lines 295 to 303.\<close>

definition gen_ledger :: "SiteInput \<Rightarrow> real \<Rightarrow> LumberSpec \<Rightarrow> Ledger" where
  "gen_ledger site_input j_bottom_z j_lumber =
     \<lparr>ledger_x_start_ft = - width_ft site_input / 2,
      ledger_x_end_ft = width_ft site_input / 2,
      ledger_y_ft = 0,
      ledger_z_ft = j_bottom_z,
      ledger_lumber = j_lumber,
      ledger_attachment_value = ledger_attachment site_input\<rparr>"

text \<open>Lines 306 to 328.\<close>

definition gen_rim_joists :: "SiteInput \<Rightarrow> LumberSpec \<Rightarrow> RimJoist list" where
  "gen_rim_joists site_input j_lumber =
     [SideRim ''left'' (- width_ft site_input / 2) 0 (depth_ft site_input) j_lumber,
      SideRim ''right'' (width_ft site_input / 2) 0 (depth_ft site_input) j_lumber,
      OuterRim ''outer'' (- width_ft site_input / 2) (width_ft site_input / 2)
        (depth_ft site_input) j_lumber]"

subsection \<open>Structure assembly: \<^verbatim>\<open>generate_structure\<close>\<close>

text \<open>The handler \<^verbatim>\<open>except ValueError as e\<close> of both \<^verbatim>\<open>try\<close> blocks: the message goes
  to \<^verbatim>\<open>errors\<close>, \<^verbatim>\<open>compliant\<close> becomes false and the structure is returned as it is.\<close>

definition record_error :: "DeckStructure \<Rightarrow> message \<Rightarrow> DeckStructure" where
  "record_error structure m =
     structure\<lparr>errors := errors structure @ [m], compliant := False\<rparr>"

text \<open>Lines 214 to 330: everything after the beam selector has returned.\<close>

definition generate_from_beam ::
  "SiteInput \<Rightarrow> DeckStructure \<Rightarrow> int \<Rightarrow> LumberSpec \<Rightarrow> string \<Rightarrow> int
     \<Rightarrow> exception + DeckStructure" where
  "generate_from_beam site_input structure spacing_in j_lumber beam_lumber_size b_ply =
     (case dict_index LUMBER_SPECS beam_lumber_size of
        Inl e \<Rightarrow> Inl e
      | Inr b_lumber \<Rightarrow>
     (let b_bottom_z = beam_bottom_z site_input j_lumber b_lumber;
          p_height_ft = b_bottom_z
      in case select_post_size p_height_ft of
        Inl e \<Rightarrow> Inl e
      | Inr p_size \<Rightarrow>
     (let structure = structure\<lparr>post_size := p_size\<rparr>
      in case dict_index LUMBER_SPECS p_size of
        Inl e \<Rightarrow> Inl e
      | Inr p_lumber \<Rightarrow>
     (let structure =
            (if p_height_ft > dict_get POST_HEIGHT_LIMITS p_size 8.0
             then structure\<lparr>structure_notes :=
                    structure_notes structure @ [PostVerifyNote p_size p_height_ft]\<rparr>
             else structure\<lparr>structure_notes :=
                    structure_notes structure @ [PostNote p_size p_height_ft]\<rparr>);
          tributary_area = actual_beam_span site_input * joist_span_ft site_input
      in case calculate_footing_diameter tributary_area (soil_bearing_psf site_input) of
        Inl e \<Rightarrow> Inl e
      | Inr footing_diameter \<Rightarrow>
     (let structure = structure\<lparr>structure_footing_diameter_in := footing_diameter\<rparr>;
          structure = structure\<lparr>structure_notes := structure_notes structure @
            [FootingNote footing_diameter (frost_depth_in site_input) tributary_area]\<rparr>;
          structure = structure\<lparr>
            footings := footings structure @ gen_footings site_input footing_diameter,
            posts := posts structure @ gen_posts site_input p_height_ft p_lumber\<rparr>;
          structure = structure\<lparr>
            beams := beams structure @ gen_beams site_input b_bottom_z b_lumber b_ply\<rparr>;
          j_bottom_z = joist_bottom_z site_input j_lumber;
          structure = structure\<lparr>
            joists := joists structure @ gen_joists site_input spacing_in j_bottom_z j_lumber\<rparr>;
          structure = structure\<lparr>structure_notes := structure_notes structure @
            [JoistCountNote (num_joists site_input spacing_in)]\<rparr>;
          structure =
            (if ledger_attachment site_input \<noteq> FREESTANDING
             then structure\<lparr>ledger := Some (gen_ledger site_input j_bottom_z j_lumber)\<rparr>
             else structure);
          structure = structure\<lparr>rim_joists := gen_rim_joists site_input j_lumber\<rparr>
      in Inr structure)))))"

text \<open>Lines 187 to 212: from the joist selector's result to the beam selector's.\<close>

definition generate_from_joist ::
  "SiteInput \<Rightarrow> DeckStructure \<Rightarrow> int \<Rightarrow> string \<Rightarrow> exception + DeckStructure" where
  "generate_from_joist site_input structure spacing_in j_size =
     (case dict_index LUMBER_SPECS j_size of
        Inl e \<Rightarrow> Inl e
      | Inr j_lumber \<Rightarrow>
          (case select_beam_size (actual_beam_span site_input) (joist_span_ft site_input) of
             Inl (ValueError m) \<Rightarrow> Inr (record_error structure m)
           | Inl e \<Rightarrow> Inl e
           | Inr (beam_lumber_size, b_ply) \<Rightarrow>
               (let structure = structure\<lparr>beam_size := beam_lumber_size\<rparr>;
                    structure = structure\<lparr>structure_beam_ply := b_ply\<rparr>;
                    structure = structure\<lparr>structure_notes := structure_notes structure @
                      [BeamNote b_ply beam_lumber_size (actual_beam_span site_input)
                         (num_posts site_input)]\<rparr>
                in generate_from_beam site_input structure spacing_in j_lumber
                     beam_lumber_size b_ply)))"

text \<open>Lines 145 to 185, with the joist span table as a parameter.\<close>

definition generate_structure_in ::
  "((string \<times> int) \<rightharpoonup> real) \<Rightarrow> SiteInput \<Rightarrow> exception + DeckStructure" where
  "generate_structure_in tbl site_input =
     (let structure = mk_DeckStructure site_input;
          depth = depth_ft site_input;
          spacing_in = 16;
          structure = structure\<lparr>joist_spacing_in := spacing_in\<rparr>
      in if cantilever_ft site_input > depth * MAX_CANTILEVER_RATIO
         then Inr (record_error structure
                (CantileverMsg (cantilever_ft site_input) (depth * MAX_CANTILEVER_RATIO) depth))
         else case select_joist_size_in tbl (joist_span_ft site_input) spacing_in of
                Inl (ValueError m) \<Rightarrow> Inr (record_error structure m)
              | Inl e \<Rightarrow> Inl e
              | Inr j_size \<Rightarrow>
                  (let structure = structure\<lparr>joist_size := j_size\<rparr>;
                       structure = structure\<lparr>structure_notes := structure_notes structure @
                         [JoistNote j_size spacing_in (joist_span_ft site_input)]\<rparr>
                   in generate_from_joist site_input structure spacing_in j_size))"

text \<open>\<^verbatim>\<open>generate_structure\<close> itself reads the global \<^verbatim>\<open>JOIST_SPANS\<close>.\<close>

definition generate_structure :: "SiteInput \<Rightarrow> exception + DeckStructure" where
  "generate_structure site_input = generate_structure_in JOIST_SPANS site_input"

subsection \<open>The structure returned by a complete run\<close>

text \<open>A closed form of what \<^verbatim>\<open>generate_structure\<close> returns when it runs to its last line,
  in terms of the sizes selected on the way; \<open>generate_structure_complete\<close> below
  derives it from the definitions above.\<close>

definition assembled ::
  "SiteInput \<Rightarrow> string \<Rightarrow> LumberSpec \<Rightarrow> string \<Rightarrow> int \<Rightarrow> LumberSpec \<Rightarrow> string
     \<Rightarrow> LumberSpec \<Rightarrow> int \<Rightarrow> DeckStructure" where
  "assembled si j_size jl b_size b_ply bl p_size pl d =
     \<lparr>input = si,
      footings = gen_footings si d,
      posts = gen_posts si (beam_bottom_z si jl bl) pl,
      beams = gen_beams si (beam_bottom_z si jl bl) bl b_ply,
      joists = gen_joists si 16 (joist_bottom_z si jl) jl,
      ledger = (if ledger_attachment si \<noteq> FREESTANDING
                then Some (gen_ledger si (joist_bottom_z si jl) jl) else None),
      rim_joists = gen_rim_joists si jl,
      joist_size = j_size, joist_spacing_in = 16,
      beam_size = b_size, structure_beam_ply = b_ply, post_size = p_size,
      structure_footing_diameter_in = d, compliant = True,
      structure_notes =
        [JoistNote j_size 16 (joist_span_ft si),
         BeamNote b_ply b_size (actual_beam_span si) (num_posts si),
         (if beam_bottom_z si jl bl > dict_get POST_HEIGHT_LIMITS p_size 8.0
          then PostVerifyNote p_size (beam_bottom_z si jl bl)
          else PostNote p_size (beam_bottom_z si jl bl)),
         FootingNote d (frost_depth_in si) (actual_beam_span si * joist_span_ft si),
         JoistCountNote (num_joists si 16)],
      errors = []\<rparr>"

section \<open>Properties of the selectors\<close>

lemma select_joist_loop_find:
  "select_joist_loop tbl span_ft spacing_in xs =
     find (\<lambda>s. span_ft \<le> dict_get tbl (s, spacing_in) 0) xs"
  by (induction xs) (simp_all add: Let_def)

lemma select_beam_loop_find:
  "select_beam_loop beam_span_ft joist_cat xs =
     map_option (\<lambda>s. (s, 2))
       (find (\<lambda>s. beam_span_ft \<le> dict_get BEAM_SPANS (''2-'' @ s, joist_cat) 0) xs)"
  by (induction xs) (simp_all add: Let_def)

lemma select_joist_size_find:
  "select_joist_size span_ft spacing_in =
     (case find (\<lambda>s. span_ft \<le> dict_get JOIST_SPANS (s, spacing_in) 0) joist_sizes of
        Some sz \<Rightarrow> Inr sz
      | None \<Rightarrow> Inl (ValueError
          (JoistSpanMsg span_ft spacing_in (dict_get JOIST_SPANS (''2x12'', spacing_in) 0))))"
  by (simp add: select_joist_size_def select_joist_size_in_def select_joist_loop_find)

lemma select_beam_size_find:
  "select_beam_size beam_span_ft j_span_ft =
     (case find (\<lambda>s. beam_span_ft \<le>
                   dict_get BEAM_SPANS (''2-'' @ s, get_joist_span_category j_span_ft) 0)
             joist_sizes of
        Some sz \<Rightarrow> Inr (sz, 2)
      | None \<Rightarrow> Inl (ValueError
          (BeamSpanMsg beam_span_ft (get_joist_span_category j_span_ft))))"
  by (simp add: select_beam_size_def select_beam_loop_find split: option.splits)

lemma joist_table_2x12:
  "spacing_in \<in> {12, 16, 24} \<Longrightarrow>
     \<exists>m. JOIST_SPANS (''2x12'', spacing_in) = Some m \<and>
         dict_get JOIST_SPANS (''2x12'', spacing_in) 0 = m"
  by (auto simp: JOIST_SPANS_def dict_get_def)

lemma select_joist_size_16:
  "select_joist_size span_ft 16 =
     (if span_ft \<le> 9.5 then Inr ''2x6''
      else if span_ft \<le> 12.5 then Inr ''2x8''
      else if span_ft \<le> 16 then Inr ''2x10''
      else if span_ft \<le> 19.5 then Inr ''2x12''
      else Inl (ValueError (JoistSpanMsg span_ft 16 19.5)))"
  by (simp add: select_joist_size_def select_joist_size_in_def joist_sizes_def dict_get_def
      JOIST_SPANS_def)

lemma select_beam_size_table:
  "select_beam_size b j =
     (if j \<le> 6 then
        (if b \<le> 5.5 then Inr (''2x6'', 2) else if b \<le> 7 then Inr (''2x8'', 2)
         else if b \<le> 9 then Inr (''2x10'', 2) else if b \<le> 11 then Inr (''2x12'', 2)
         else Inl (ValueError (BeamSpanMsg b ''6'')))
      else if j \<le> 8 then
        (if b \<le> 4.5 then Inr (''2x6'', 2) else if b \<le> 6 then Inr (''2x8'', 2)
         else if b \<le> 8 then Inr (''2x10'', 2) else if b \<le> 9.5 then Inr (''2x12'', 2)
         else Inl (ValueError (BeamSpanMsg b ''8'')))
      else if j \<le> 10 then
        (if b \<le> 4 then Inr (''2x6'', 2) else if b \<le> 5.5 then Inr (''2x8'', 2)
         else if b \<le> 7 then Inr (''2x10'', 2) else if b \<le> 8.5 then Inr (''2x12'', 2)
         else Inl (ValueError (BeamSpanMsg b ''10'')))
      else
        (if b \<le> 3.5 then Inr (''2x6'', 2) else if b \<le> 5 then Inr (''2x8'', 2)
         else if b \<le> 6.5 then Inr (''2x10'', 2) else if b \<le> 7.5 then Inr (''2x12'', 2)
         else Inl (ValueError (BeamSpanMsg b ''12''))))"
  by (simp add: select_beam_size_def get_joist_span_category_def joist_sizes_def dict_get_def
      BEAM_SPANS_def)

lemma select_post_size_table:
  "select_post_size h =
     Inr (if h \<le> 8 then ''4x4'' else if h \<le> 14 then ''4x6'' else ''6x6'')"
  by (simp add: select_post_size_def post_sizes_def dict_index_def POST_HEIGHT_LIMITS_def)

lemma lumber_of_joist_size:
  "sz \<in> set joist_sizes \<Longrightarrow> \<exists>l. LUMBER_SPECS sz = Some l \<and> 0 < height_in l \<and> height_in l \<le> 11.25"
  by (auto simp: joist_sizes_def LUMBER_SPECS_def mk_LumberSpec_def)

lemma lumber_of_post_size:
  "sz \<in> set post_sizes \<Longrightarrow> \<exists>l. LUMBER_SPECS sz = Some l"
  by (auto simp: post_sizes_def LUMBER_SPECS_def)

lemma select_joist_size_in_result:
  "(\<exists>sz \<in> set joist_sizes. select_joist_size_in tbl span_ft spacing_in = Inr sz) \<or>
   (\<exists>m. select_joist_size_in tbl span_ft spacing_in = Inl (ValueError m))"
  by (auto simp: select_joist_size_in_def select_joist_loop_find split: option.splits
      dest: find_Some_iff [THEN iffD1])

lemma select_beam_size_result:
  "(\<exists>sz \<in> set joist_sizes. select_beam_size b j = Inr (sz, 2)) \<or>
   (\<exists>m. select_beam_size b j = Inl (ValueError m))"
  by (auto simp: select_beam_size_find split: option.splits dest: find_Some_iff [THEN iffD1])

lemma select_post_size_result: "\<exists>sz \<in> set post_sizes. select_post_size h = Inr sz"
  by (simp add: select_post_size_table post_sizes_def)

section \<open>Properties of the geometry\<close>

lemma num_posts_ge_2: "2 \<le> num_posts si"
  by (simp add: num_posts_def)

lemma num_posts_cases:
  "(width_ft si \<le> 8 \<and> num_posts si = 2) \<or>
   (8 < width_ft si \<and> num_posts si = \<lceil>width_ft si / 8\<rceil> + 1 \<and> 2 \<le> \<lceil>width_ft si / 8\<rceil>)"
proof (cases "width_ft si \<le> 8")
  case True
  then have "\<lceil>width_ft si / 8\<rceil> \<le> 1" by (simp add: ceiling_le_iff)
  with True show ?thesis by (simp add: num_posts_def target_beam_span_def)
next
  case False
  then have "1 < width_ft si / 8" by simp
  then have "1 < \<lceil>width_ft si / 8\<rceil>" by (simp add: less_ceiling_iff)
  with False show ?thesis by (simp add: num_posts_def target_beam_span_def)
qed

lemma actual_beam_span_le_target: "actual_beam_span si \<le> 8"
proof -
  from num_posts_cases [of si] show ?thesis
  proof (elim disjE conjE)
    assume "width_ft si \<le> 8" "num_posts si = 2"
    then show ?thesis by (simp add: actual_beam_span_def)
  next
    assume a: "8 < width_ft si" "num_posts si = \<lceil>width_ft si / 8\<rceil> + 1"
      "2 \<le> \<lceil>width_ft si / 8\<rceil>"
    have "width_ft si / 8 \<le> real_of_int \<lceil>width_ft si / 8\<rceil>" by (rule le_of_int_ceiling)
    then have "width_ft si \<le> 8 * real_of_int \<lceil>width_ft si / 8\<rceil>" by linarith
    moreover have "0 < real_of_int \<lceil>width_ft si / 8\<rceil>" using a(3) by simp
    ultimately have "width_ft si / real_of_int \<lceil>width_ft si / 8\<rceil> \<le> 8"
      by (simp add: pos_divide_le_eq mult.commute)
    then show ?thesis using a(2) by (simp add: actual_beam_span_def)
  qed
qed

lemma actual_beam_span_subdivides:
  "real_of_int (num_posts si - 1) * actual_beam_span si = width_ft si"
  using num_posts_ge_2 [of si] by (simp add: actual_beam_span_def)

lemma actual_beam_span_pos: "0 < width_ft si \<Longrightarrow> 0 < actual_beam_span si"
  using num_posts_ge_2 [of si] by (simp add: actual_beam_span_def)

lemma cantilever_le_quarter:
  "0 \<le> depth_ft si \<Longrightarrow> cantilever_ft si \<le> depth_ft si * MAX_CANTILEVER_RATIO"
  by (auto simp: cantilever_ft_def MAX_CANTILEVER_RATIO_def min_def)

lemma cantilever_exceeded_iff:
  "cantilever_ft si > depth_ft si * MAX_CANTILEVER_RATIO \<longleftrightarrow>
     ledger_attachment si = FREESTANDING \<and> depth_ft si < 0"
  by (auto simp: cantilever_ft_def MAX_CANTILEVER_RATIO_def)

lemma joist_span_gt_imp_depth_pos: "0 < joist_span_ft si \<Longrightarrow> 0 < depth_ft si"
  by (auto simp: joist_span_ft_def cantilever_ft_def MAX_CANTILEVER_RATIO_def min_def
      split: if_splits)

section \<open>Properties of the footing computation\<close>

lemma footing_loop_standard:
  "footing_loop r standard_sizes =
     (if r \<le> 12 then Some 12 else if r \<le> 14 then Some 14 else if r \<le> 16 then Some 16
      else if r \<le> 18 then Some 18 else if r \<le> 20 then Some 20 else if r \<le> 24 then Some 24
      else None)"
  by (simp add: standard_sizes_def)

lemma diameter_le_iff:
  assumes "0 \<le> a" and "0 \<le> z"
  shows "2 * sqrt (a / pi) \<le> z \<longleftrightarrow> 4 * a \<le> z\<^sup>2 * pi"
proof -
  have "2 * sqrt (a / pi) = sqrt (4 * a / pi)"
    by (simp add: real_sqrt_mult real_sqrt_divide)
  moreover have "sqrt (4 * a / pi) \<le> z \<longleftrightarrow> 4 * a / pi \<le> z\<^sup>2"
    using assms by (metis real_sqrt_le_iff real_sqrt_abs abs_of_nonneg)
  moreover have "4 * a / pi \<le> z\<^sup>2 \<longleftrightarrow> 4 * a \<le> z\<^sup>2 * pi"
    by (simp add: pos_divide_le_eq)
  ultimately show ?thesis by simp
qed

lemma required_area_nonneg:
  "0 \<le> t \<Longrightarrow> 0 < soil \<Longrightarrow> 0 \<le> required_area_sqin t soil"
  by (simp add: required_area_sqin_def TOTAL_LOAD_PSF_def DEAD_LOAD_PSF_def LIVE_LOAD_PSF_def)

lemma required_area_value:
  "soil \<noteq> 0 \<Longrightarrow> required_area_sqin t soil = 7920 * t / real_of_int soil"
  by (simp add: required_area_sqin_def TOTAL_LOAD_PSF_def DEAD_LOAD_PSF_def LIVE_LOAD_PSF_def)

lemma required_diameter_le_iff:
  assumes "0 \<le> t" and "0 < soil" and "0 \<le> z"
  shows "required_diameter t soil \<le> z \<longleftrightarrow> 4 * (7920 * t / real_of_int soil) \<le> z\<^sup>2 * pi"
proof -
  have "0 \<le> required_area_sqin t soil" using assms by (simp add: required_area_nonneg)
  then have "2 * sqrt (required_area_sqin t soil / pi) \<le> z \<longleftrightarrow>
             4 * required_area_sqin t soil \<le> z\<^sup>2 * pi"
    using assms(3) by (rule diameter_le_iff)
  then show ?thesis using assms(2) by (simp add: required_diameter_def required_area_value)
qed

lemma calculate_footing_diameter_ok:
  assumes "0 \<le> t" and "0 < soil"
  shows "calculate_footing_diameter t soil =
     Inr (case footing_loop (required_diameter t soil) standard_sizes of
            Some sz \<Rightarrow> sz | None \<Rightarrow> 24)"
proof -
  have "0 \<le> required_area_sqin t soil / pi"
    using required_area_nonneg [OF assms] by simp
  then have "\<not> required_area_sqin t soil / pi < 0" by (simp add: not_less)
  then show ?thesis using assms(2)
    by (simp add: calculate_footing_diameter_def split: option.splits)
qed

lemma small_area_diameter_12:
  assumes "0 \<le> t" and "t \<le> 12"
  shows "calculate_footing_diameter t 1500 = Inr 12"
proof -
  have "4 * (7920 * t / real_of_int 1500) \<le> 12\<^sup>2 * 2" using assms(2) by simp
  also have "\<dots> \<le> 12\<^sup>2 * pi" using pi_ge_two by simp
  finally have "required_diameter t 1500 \<le> 12"
    using required_diameter_le_iff [of t 1500 12] assms(1) by simp
  then show ?thesis
    using assms(1) by (simp add: calculate_footing_diameter_ok footing_loop_standard)
qed

lemma required_diameter_100_1000: "24 < required_diameter 100 1000"
proof -
  have "\<not> 4 * (7920 * 100 / real_of_int 1000) \<le> 24\<^sup>2 * pi" using pi_less_4 by simp
  then have "\<not> required_diameter 100 1000 \<le> 24"
    using required_diameter_le_iff [of 100 1000 24] by simp
  then show ?thesis by simp
qed


section \<open>Properties of \<^verbatim>\<open>generate_structure\<close>\<close>

lemma generate_structure_complete:
  assumes "generate_structure_in tbl si = Inr s" and "compliant s"
  shows "\<exists>j_size jl b_size b_ply bl p_size pl d.
    select_joist_size_in tbl (joist_span_ft si) 16 = Inr j_size \<and>
    LUMBER_SPECS j_size = Some jl \<and>
    select_beam_size (actual_beam_span si) (joist_span_ft si) = Inr (b_size, b_ply) \<and>
    LUMBER_SPECS b_size = Some bl \<and>
    select_post_size (beam_bottom_z si jl bl) = Inr p_size \<and>
    LUMBER_SPECS p_size = Some pl \<and>
    calculate_footing_diameter (actual_beam_span si * joist_span_ft si)
      (soil_bearing_psf si) = Inr d \<and>
    \<not> cantilever_ft si > depth_ft si * MAX_CANTILEVER_RATIO \<and>
    s = assembled si j_size jl b_size b_ply bl p_size pl d"
  using assms
  unfolding generate_structure_in_def generate_from_joist_def generate_from_beam_def
  by (auto simp: Let_def record_error_def mk_DeckStructure_def dict_index_def assembled_def
       split: sum.splits exception.splits prod.splits if_splits option.splits)

lemma generate_structure_run:
  assumes "\<not> cantilever_ft si > depth_ft si * MAX_CANTILEVER_RATIO"
    and "select_joist_size_in tbl (joist_span_ft si) 16 = Inr j_size"
    and "LUMBER_SPECS j_size = Some jl"
    and "select_beam_size (actual_beam_span si) (joist_span_ft si) = Inr (b_size, b_ply)"
    and "LUMBER_SPECS b_size = Some bl"
    and "select_post_size (beam_bottom_z si jl bl) = Inr p_size"
    and "LUMBER_SPECS p_size = Some pl"
    and "calculate_footing_diameter (actual_beam_span si * joist_span_ft si)
           (soil_bearing_psf si) = Inr d"
  shows "generate_structure_in tbl si = Inr (assembled si j_size jl b_size b_ply bl p_size pl d)"
  using assms
  unfolding generate_structure_in_def generate_from_joist_def generate_from_beam_def
  by (simp add: Let_def mk_DeckStructure_def dict_index_def assembled_def)

lemma generate_structure_joist_failure:
  assumes "\<not> cantilever_ft si > depth_ft si * MAX_CANTILEVER_RATIO"
    and "select_joist_size_in tbl (joist_span_ft si) 16 = Inl (ValueError m)"
  shows "generate_structure_in tbl si =
           Inr (record_error ((mk_DeckStructure si)\<lparr>joist_spacing_in := 16\<rparr>) m)"
  using assms unfolding generate_structure_in_def by (simp add: Let_def)

lemma generate_structure_beam_failure:
  assumes "\<not> cantilever_ft si > depth_ft si * MAX_CANTILEVER_RATIO"
    and "select_joist_size_in tbl (joist_span_ft si) 16 = Inr j_size"
    and "LUMBER_SPECS j_size = Some jl"
    and "select_beam_size (actual_beam_span si) (joist_span_ft si) = Inl (ValueError m)"
  shows "generate_structure_in tbl si =
           Inr (record_error ((mk_DeckStructure si)\<lparr>joist_spacing_in := 16,
                  joist_size := j_size,
                  structure_notes := [JoistNote j_size 16 (joist_span_ft si)]\<rparr>) m)"
  using assms unfolding generate_structure_in_def generate_from_joist_def
  by (simp add: Let_def dict_index_def mk_DeckStructure_def)

lemma generate_structure_outcomes:
  assumes "generate_structure_in tbl si = Inr s"
  shows "joist_spacing_in s = 16 \<and> input s = si \<and>
    ((compliant s \<and> errors s = []) \<or>
     (\<not> compliant s \<and> cantilever_ft si > depth_ft si * MAX_CANTILEVER_RATIO \<and>
        errors s = [CantileverMsg (cantilever_ft si) (depth_ft si * MAX_CANTILEVER_RATIO)
                      (depth_ft si)]) \<or>
     (\<not> compliant s \<and> \<not> cantilever_ft si > depth_ft si * MAX_CANTILEVER_RATIO \<and>
        select_joist_size_in tbl (joist_span_ft si) 16 = Inl (ValueError (hd (errors s))) \<and>
        errors s = [hd (errors s)]) \<or>
     (\<not> compliant s \<and> \<not> cantilever_ft si > depth_ft si * MAX_CANTILEVER_RATIO \<and>
        \<not> isl (select_joist_size_in tbl (joist_span_ft si) 16) \<and>
        select_beam_size (actual_beam_span si) (joist_span_ft si)
          = Inl (ValueError (hd (errors s))) \<and>
        errors s = [hd (errors s)]))"
  using assms
  unfolding generate_structure_in_def generate_from_joist_def generate_from_beam_def
  by (auto simp: Let_def record_error_def mk_DeckStructure_def dict_index_def
       split: sum.splits exception.splits prod.splits if_splits option.splits)

lemma joist_table_independence:
  assumes "\<And>sz. tbl (sz, 16) = tbl' (sz, 16)"
  shows "generate_structure_in tbl si = generate_structure_in tbl' si"
proof -
  have eq: "dict_get tbl (sz, 16) 0 = dict_get tbl' (sz, 16) 0" for sz
    using assms by (simp add: dict_get_def)
  have "select_joist_size_in tbl x 16 = select_joist_size_in tbl' x 16" for x
    by (simp add: select_joist_size_in_def select_joist_loop_find eq split: option.splits)
  then show ?thesis by (simp add: generate_structure_in_def Let_def)
qed

lemma beam_failure_needs_long_joists:
  assumes "select_beam_size (actual_beam_span si) (joist_span_ft si) = Inl e"
  shows "10 < joist_span_ft si"
  using assms actual_beam_span_le_target [of si]
  by (simp add: select_beam_size_table split: if_splits)


section \<open>Claims about the selectors and the calculators\<close>

text \<open>C3. For every required span and every spacing among 12, 16 and 24, the joist
  selector walks the sizes 2x6, 2x8, 2x10, 2x12 in this order (ascending actual depth) and
  returns the first one whose tabulated maximum span at that spacing is at least the
  required span, so no earlier (smaller) size qualifies; it returns whenever some size
  qualifies; and when none does it raises the span-exceeded error, whose message carries
  the tabulated maximum span of 2x12 at that spacing.\<close>

theorem joist_selector_minimal:
  assumes "spacing_in \<in> {12, 16, 24}"
  shows "joist_sizes = [''2x6'', ''2x8'', ''2x10'', ''2x12''] \<and>
    map (\<lambda>s. map_option height_in (LUMBER_SPECS s)) joist_sizes
      = [Some 5.5, Some 7.25, Some 9.25, Some 11.25] \<and>
    (\<forall>sz. select_joist_size span_ft spacing_in = Inr sz \<longrightarrow>
       (\<exists>i<length joist_sizes. sz = joist_sizes ! i \<and>
          span_ft \<le> dict_get JOIST_SPANS (sz, spacing_in) 0 \<and>
          (\<forall>k<i. dict_get JOIST_SPANS (joist_sizes ! k, spacing_in) 0 < span_ft))) \<and>
    ((\<exists>sz\<in>set joist_sizes. span_ft \<le> dict_get JOIST_SPANS (sz, spacing_in) 0) \<longrightarrow>
       (\<exists>sz. select_joist_size span_ft spacing_in = Inr sz)) \<and>
    ((\<forall>sz\<in>set joist_sizes. dict_get JOIST_SPANS (sz, spacing_in) 0 < span_ft) \<longrightarrow>
       (\<exists>m. JOIST_SPANS (''2x12'', spacing_in) = Some m \<and>
          select_joist_size span_ft spacing_in
            = Inl (ValueError (JoistSpanMsg span_ft spacing_in m))))"
proof (intro conjI allI impI)
  show "joist_sizes = [''2x6'', ''2x8'', ''2x10'', ''2x12'']"
    by (simp add: joist_sizes_def)
  show "map (\<lambda>s. map_option height_in (LUMBER_SPECS s)) joist_sizes
      = [Some 5.5, Some 7.25, Some 9.25, Some 11.25]"
    by (simp add: joist_sizes_def LUMBER_SPECS_def mk_LumberSpec_def)
next
  fix sz
  assume "select_joist_size span_ft spacing_in = Inr sz"
  then have "find (\<lambda>s. span_ft \<le> dict_get JOIST_SPANS (s, spacing_in) 0) joist_sizes = Some sz"
    by (simp add: select_joist_size_find split: option.splits)
  then show "\<exists>i<length joist_sizes. sz = joist_sizes ! i \<and>
          span_ft \<le> dict_get JOIST_SPANS (sz, spacing_in) 0 \<and>
          (\<forall>k<i. dict_get JOIST_SPANS (joist_sizes ! k, spacing_in) 0 < span_ft)"
    by (auto simp: find_Some_iff not_le)
next
  assume "\<exists>sz\<in>set joist_sizes. span_ft \<le> dict_get JOIST_SPANS (sz, spacing_in) 0"
  then have "find (\<lambda>s. span_ft \<le> dict_get JOIST_SPANS (s, spacing_in) 0) joist_sizes \<noteq> None"
    by (auto simp: find_None_iff)
  then show "\<exists>sz. select_joist_size span_ft spacing_in = Inr sz"
    by (auto simp: select_joist_size_find)
next
  assume "\<forall>sz\<in>set joist_sizes. dict_get JOIST_SPANS (sz, spacing_in) 0 < span_ft"
  then have "find (\<lambda>s. span_ft \<le> dict_get JOIST_SPANS (s, spacing_in) 0) joist_sizes = None"
    by (auto simp: find_None_iff not_le)
  then show "\<exists>m. JOIST_SPANS (''2x12'', spacing_in) = Some m \<and>
          select_joist_size span_ft spacing_in
            = Inl (ValueError (JoistSpanMsg span_ft spacing_in m))"
    using joist_table_2x12 [OF assms] by (auto simp: select_joist_size_find)
qed

theorem joist_selector_minimal_witness:
  "(16::int) \<in> {12, 16, 24} \<and>
   select_joist_size 10 16 = Inr ''2x8'' \<and>
   10 \<le> dict_get JOIST_SPANS (''2x8'', 16) 0 \<and>
   dict_get JOIST_SPANS (''2x6'', 16) 0 < 10 \<and>
   select_joist_size 28 16 = Inl (ValueError (JoistSpanMsg 28 16 19.5))"
  using joist_selector_minimal [of 16 10] joist_selector_minimal [of 16 28]
  by (simp add: select_joist_size_16 dict_get_def JOIST_SPANS_def)

text \<open>C4. For every beam span and joist span, the beam selector maps the joist span to
  the category "6" if it is at most 6, "8" if at most 8, "10" if at most 10 and "12"
  otherwise; it looks up only the doubled configurations "2-" followed by the size, over
  2x6, 2x8, 2x10, 2x12 in this order, and returns the first size whose tabulated maximum
  span in that category is at least the beam span, with ply 2; it raises the span-exceeded
  error exactly when no size qualifies.\<close>

theorem beam_selector_first_fit:
  "get_joist_span_category j_span =
     (if j_span \<le> 6 then ''6'' else if j_span \<le> 8 then ''8''
      else if j_span \<le> 10 then ''10'' else ''12'') \<and>
   (\<forall>sz ply. select_beam_size b_span j_span = Inr (sz, ply) \<longrightarrow>
      ply = 2 \<and>
      (\<exists>i<length joist_sizes. sz = joist_sizes ! i \<and>
         b_span \<le> dict_get BEAM_SPANS (''2-'' @ sz, get_joist_span_category j_span) 0 \<and>
         (\<forall>k<i. dict_get BEAM_SPANS
                  (''2-'' @ joist_sizes ! k, get_joist_span_category j_span) 0 < b_span))) \<and>
   ((\<exists>sz\<in>set joist_sizes.
        b_span \<le> dict_get BEAM_SPANS (''2-'' @ sz, get_joist_span_category j_span) 0) \<longrightarrow>
      (\<exists>sz. select_beam_size b_span j_span = Inr (sz, 2))) \<and>
   ((\<forall>sz\<in>set joist_sizes.
        dict_get BEAM_SPANS (''2-'' @ sz, get_joist_span_category j_span) 0 < b_span) \<longrightarrow>
      select_beam_size b_span j_span
        = Inl (ValueError (BeamSpanMsg b_span (get_joist_span_category j_span))))"
proof (intro conjI allI impI)
  show "get_joist_span_category j_span =
     (if j_span \<le> 6 then ''6'' else if j_span \<le> 8 then ''8''
      else if j_span \<le> 10 then ''10'' else ''12'')"
    by (simp add: get_joist_span_category_def)
next
  fix sz ply
  assume r: "select_beam_size b_span j_span = Inr (sz, ply)"
  then show "ply = 2"
    by (auto simp: select_beam_size_find split: option.splits)
  from r have "find (\<lambda>s. b_span \<le>
        dict_get BEAM_SPANS (''2-'' @ s, get_joist_span_category j_span) 0) joist_sizes = Some sz"
    by (auto simp: select_beam_size_find split: option.splits)
  then show "\<exists>i<length joist_sizes. sz = joist_sizes ! i \<and>
         b_span \<le> dict_get BEAM_SPANS (''2-'' @ sz, get_joist_span_category j_span) 0 \<and>
         (\<forall>k<i. dict_get BEAM_SPANS
                  (''2-'' @ joist_sizes ! k, get_joist_span_category j_span) 0 < b_span)"
    by (auto simp: find_Some_iff not_le)
next
  assume "\<exists>sz\<in>set joist_sizes.
        b_span \<le> dict_get BEAM_SPANS (''2-'' @ sz, get_joist_span_category j_span) 0"
  then have "find (\<lambda>s. b_span \<le>
        dict_get BEAM_SPANS (''2-'' @ s, get_joist_span_category j_span) 0) joist_sizes \<noteq> None"
    by (auto simp: find_None_iff)
  then show "\<exists>sz. select_beam_size b_span j_span = Inr (sz, 2)"
    by (auto simp: select_beam_size_find)
next
  assume "\<forall>sz\<in>set joist_sizes.
        dict_get BEAM_SPANS (''2-'' @ sz, get_joist_span_category j_span) 0 < b_span"
  then have "find (\<lambda>s. b_span \<le>
        dict_get BEAM_SPANS (''2-'' @ s, get_joist_span_category j_span) 0) joist_sizes = None"
    by (auto simp: find_None_iff not_le)
  then show "select_beam_size b_span j_span
        = Inl (ValueError (BeamSpanMsg b_span (get_joist_span_category j_span)))"
    by (simp add: select_beam_size_find)
qed

theorem beam_selector_first_fit_witness:
  "select_beam_size 8 10 = Inr (''2x12'', 2) \<and>
   get_joist_span_category 10 = ''10'' \<and>
   8 \<le> dict_get BEAM_SPANS (''2-2x12'', ''10'') 0 \<and>
   dict_get BEAM_SPANS (''2-2x10'', ''10'') 0 < 8 \<and>
   select_beam_size 8 12 = Inl (ValueError (BeamSpanMsg 8 ''12''))"
  using beam_selector_first_fit [of 10 8] beam_selector_first_fit [of 12 8]
  by (simp add: select_beam_size_table get_joist_span_category_def dict_get_def BEAM_SPANS_def)

text \<open>C2, as amended. For every tributary area above 0 and soil bearing capacity above 0
  the footing calculation returns a diameter among 12, 14, 16, 18, 20 and 24, and no
  smaller standard diameter is at least the required diameter \<open>2 * sqrt (A / pi)\<close>. The
  required diameter is at most the returned one whenever it is at most 24; when it
  exceeds 24 the returned diameter is 24, below the requirement.\<close>

theorem footing_round_up:
  assumes "0 < tributary_area_sqft" and "0 < soil_bearing"
  shows "\<exists>d. calculate_footing_diameter tributary_area_sqft soil_bearing = Inr d \<and>
    d \<in> {12, 14, 16, 18, 20, 24} \<and>
    (required_diameter tributary_area_sqft soil_bearing \<le> 24 \<longrightarrow>
       required_diameter tributary_area_sqft soil_bearing \<le> real_of_int d) \<and>
    (24 < required_diameter tributary_area_sqft soil_bearing \<longrightarrow> d = 24) \<and>
    (\<forall>z\<in>{12, 14, 16, 18, 20, 24}. z < d \<longrightarrow>
       \<not> required_diameter tributary_area_sqft soil_bearing \<le> real_of_int z)"
proof -
  have "calculate_footing_diameter tributary_area_sqft soil_bearing =
     Inr (case footing_loop (required_diameter tributary_area_sqft soil_bearing)
                 standard_sizes of Some sz \<Rightarrow> sz | None \<Rightarrow> 24)"
    using assms by (simp add: calculate_footing_diameter_ok)
  then show ?thesis
    by (simp add: footing_loop_standard)
qed

theorem footing_round_up_witness:
  "(0::real) < 12 \<and> (0::int) < 1500 \<and> calculate_footing_diameter 12 1500 = Inr 12 \<and>
   required_diameter 12 1500 \<le> 24 \<and> required_diameter 12 1500 \<le> real_of_int 12"
proof -
  have "required_diameter 12 1500 \<le> 12"
    using required_diameter_le_iff [of 12 1500 12] pi_ge_two by simp
  then show ?thesis
    using footing_round_up [of 12 1500] by (simp add: small_area_diameter_12)
qed

text \<open>C2 as stated fails where the required diameter exceeds the largest standard size:
  a tributary area of 100 square feet on soil of 1000 psf requires more than 24 inches
  and gets 24.\<close>

theorem footing_round_up_counterexample:
  "(0::real) < 100 \<and> (0::int) < 1000 \<and> calculate_footing_diameter 100 1000 = Inr 24 \<and>
   \<not> required_diameter 100 1000 \<le> real_of_int 24"
  using required_diameter_100_1000
  by (simp add: calculate_footing_diameter_ok footing_loop_standard)

text \<open>C8. For every width above 0 the post count is \<open>max 2 (ceiling (width / 8) + 1)\<close>, the
  actual beam span is the width divided by the post count less one, this span is at most
  the 8 foot target, and the post count less one spans of that length add up to the
  width.\<close>

theorem post_count_and_beam_span:
  assumes "0 < width_ft si"
  shows "num_posts si = max 2 (\<lceil>width_ft si / 8\<rceil> + 1) \<and>
    actual_beam_span si = width_ft si / real_of_int (num_posts si - 1) \<and>
    actual_beam_span si \<le> target_beam_span \<and>
    0 < actual_beam_span si \<and>
    real_of_int (num_posts si - 1) * actual_beam_span si = width_ft si \<and>
    sum_list (replicate (nat (num_posts si - 1)) (actual_beam_span si)) = width_ft si"
proof -
  have "sum_list (replicate (nat (num_posts si - 1)) (actual_beam_span si))
          = real (nat (num_posts si - 1)) * actual_beam_span si"
    by (simp add: sum_list_replicate)
  also have "real (nat (num_posts si - 1)) = real_of_int (num_posts si - 1)"
    using num_posts_ge_2 [of si] by simp
  finally have "sum_list (replicate (nat (num_posts si - 1)) (actual_beam_span si))
          = width_ft si"
    using actual_beam_span_subdivides [of si] by simp
  then show ?thesis
    using actual_beam_span_le_target [of si] actual_beam_span_pos [OF assms]
      actual_beam_span_subdivides [of si]
    by (simp add: num_posts_def actual_beam_span_def target_beam_span_def)
qed

theorem post_count_and_beam_span_witness:
  "0 < width_ft (mk_SiteInput 20 8 3) \<and> num_posts (mk_SiteInput 20 8 3) = 4 \<and>
   actual_beam_span (mk_SiteInput 20 8 3) = 20 / 3 \<and>
   actual_beam_span (mk_SiteInput 20 8 3) \<le> target_beam_span \<and>
   sum_list (replicate (nat (num_posts (mk_SiteInput 20 8 3) - 1))
     (actual_beam_span (mk_SiteInput 20 8 3))) = width_ft (mk_SiteInput 20 8 3)"
proof -
  have c: "\<lceil>(5::real) / 2\<rceil> = 3" by (simp add: ceiling_eq_iff)
  have n: "num_posts (mk_SiteInput 20 8 3) = 4"
    by (simp add: num_posts_def mk_SiteInput_def target_beam_span_def c)
  have w: "width_ft (mk_SiteInput 20 8 3) = 20" by (simp add: mk_SiteInput_def)
  show ?thesis
    using post_count_and_beam_span [of "mk_SiteInput 20 8 3"] n w
    by (simp add: actual_beam_span_def)
qed


section \<open>Members of a complete structure\<close>

lemma select_joist_size_in_member:
  "select_joist_size_in tbl x sp = Inr sz \<Longrightarrow> sz \<in> set joist_sizes"
  using select_joist_size_in_result [of tbl x sp] by auto

lemma select_beam_size_member:
  "select_beam_size b j = Inr (sz, ply) \<Longrightarrow> sz \<in> set joist_sizes \<and> ply = 2"
  using select_beam_size_result [of b j] by auto

lemma select_joist_size_in_message:
  "select_joist_size_in tbl x sp = Inl (ValueError m) \<Longrightarrow> \<exists>a b c. m = JoistSpanMsg a b c"
  by (auto simp: select_joist_size_in_def split: option.splits)

lemma select_beam_size_message:
  "select_beam_size b j = Inl (ValueError m) \<Longrightarrow> \<exists>a c. m = BeamSpanMsg a c"
  by (auto simp: select_beam_size_def Let_def split: option.splits)

lemma gen_joists_member:
  "j \<in> set (gen_joists si sp z l) \<Longrightarrow> joist_z_ft j = z \<and> joist_lumber j = l"
  by (auto simp: gen_joists_def)

lemma gen_beams_member:
  "b \<in> set (gen_beams si z l ply) \<Longrightarrow> beam_z_ft b = z \<and> beam_lumber b = l \<and> beam_ply b = ply"
  by (auto simp: gen_beams_def)

lemma gen_posts_member:
  "p \<in> set (gen_posts si h l) \<Longrightarrow> post_height_ft p = h \<and> post_lumber p = l"
  by (auto simp: gen_posts_def)

lemma gen_footings_member:
  "f \<in> set (gen_footings si d) \<Longrightarrow>
     footing_diameter_in f = d \<and> footing_depth_in f = frost_depth_in si"
  by (auto simp: gen_footings_def)

lemma range_int_num_posts_nonempty: "range_int (num_posts si) \<noteq> []"
  using num_posts_ge_2 [of si] by (simp add: range_int_def)

lemma beam_y_positions_nonempty: "beam_y_positions si \<noteq> []"
  by (simp add: beam_y_positions_def)

lemma gen_beams_nonempty: "gen_beams si z l ply \<noteq> []"
  by (simp add: gen_beams_def beam_y_positions_nonempty)

lemma gen_posts_nonempty: "gen_posts si h l \<noteq> []"
proof -
  obtain y ys where y: "beam_y_positions si = y # ys"
    using beam_y_positions_nonempty [of si] by (cases "beam_y_positions si") auto
  show ?thesis
    by (simp add: gen_posts_def y range_int_num_posts_nonempty)
qed

lemma gen_footings_nonempty: "gen_footings si d \<noteq> []"
proof -
  obtain y ys where y: "beam_y_positions si = y # ys"
    using beam_y_positions_nonempty [of si] by (cases "beam_y_positions si") auto
  show ?thesis
    by (simp add: gen_footings_def y range_int_num_posts_nonempty)
qed

lemma gen_joists_nonempty:
  assumes "0 \<le> width_ft si"
  shows "gen_joists si 16 z l \<noteq> []"
proof -
  have "0 \<le> width_ft si / joist_spacing_ft 16"
    using assms by (simp add: joist_spacing_ft_def)
  then have "0 \<le> \<lfloor>width_ft si / joist_spacing_ft 16\<rfloor>" by simp
  then have "0 < nat (num_joists si 16)" by (simp add: num_joists_def)
  then show ?thesis by (simp add: gen_joists_def range_int_def)
qed

lemma beam_bottom_z_value:
  "beam_bottom_z si jl bl =
     height_ft si - 1 / 12 - height_in jl / 12 - height_in bl / 12"
  by (simp add: beam_bottom_z_def beam_top_z_def joist_bottom_z_def joist_top_z_def
      decking_thickness_ft_def lumber_height_ft_def)

lemma noncompliant_is_empty:
  assumes "generate_structure_in tbl si = Inr s" and "\<not> compliant s"
  shows "footings s = [] \<and> posts s = [] \<and> beams s = [] \<and> joists s = [] \<and>
    ledger s = None \<and> rim_joists s = [] \<and> beam_size s = [] \<and> post_size s = []"
  using assms
  unfolding generate_structure_in_def generate_from_joist_def generate_from_beam_def
  by (auto simp: Let_def record_error_def mk_DeckStructure_def dict_index_def
       split: sum.splits exception.splits prod.splits if_splits option.splits)

text \<open>A 4 by 4 foot deck on the default soil: every selector takes the smallest size and
  the footing is the smallest standard one, whatever the attachment mode.\<close>

lemma small_deck_run:
  assumes w: "width_ft si = 4" and d: "depth_ft si = 4" and soil: "soil_bearing_psf si = 1500"
    and p: "select_post_size (height_ft si - 1) = Inr p_size"
    and pl: "LUMBER_SPECS p_size = Some pl"
  shows "generate_structure si =
    Inr (assembled si ''2x6'' (mk_LumberSpec ''2x6'' 1.5 5.5) ''2x6'' 2
           (mk_LumberSpec ''2x6'' 1.5 5.5) p_size pl 12)"
proof -
  have cant: "\<not> cantilever_ft si > depth_ft si * MAX_CANTILEVER_RATIO"
    using d cantilever_exceeded_iff [of si] by simp
  have js: "joist_span_ft si = 2 \<or> joist_span_ft si = 3"
    using d by (auto simp: joist_span_ft_def cantilever_ft_def MAX_CANTILEVER_RATIO_def)
  have sj: "select_joist_size_in JOIST_SPANS (joist_span_ft si) 16 = Inr ''2x6''"
    using js select_joist_size_16 [of "joist_span_ft si"] by (auto simp: select_joist_size_def)
  have l: "LUMBER_SPECS ''2x6'' = Some (mk_LumberSpec ''2x6'' 1.5 5.5)"
    by (simp add: LUMBER_SPECS_def)
  have np: "num_posts si = 2" using num_posts_cases [of si] w by simp
  have bs: "actual_beam_span si = 4" by (simp add: actual_beam_span_def np w)
  have sb: "select_beam_size (actual_beam_span si) (joist_span_ft si) = Inr (''2x6'', 2)"
    using js by (auto simp: bs select_beam_size_table)
  have bb: "beam_bottom_z si (mk_LumberSpec ''2x6'' 1.5 5.5) (mk_LumberSpec ''2x6'' 1.5 5.5)
              = height_ft si - 1"
    by (simp add: beam_bottom_z_value mk_LumberSpec_def)
  have fd: "calculate_footing_diameter (actual_beam_span si * joist_span_ft si)
              (soil_bearing_psf si) = Inr 12"
    using js by (auto simp: bs soil small_area_diameter_12)
  have ps: "select_post_size (beam_bottom_z si (mk_LumberSpec ''2x6'' 1.5 5.5)
              (mk_LumberSpec ''2x6'' 1.5 5.5)) = Inr p_size"
    unfolding bb by (rule p)
  show ?thesis
    unfolding generate_structure_def
    by (rule generate_structure_run [OF cant sj l sb l ps pl fd])
qed

lemma small_deck_geometry:
  assumes "width_ft si = 4" and "depth_ft si = 4"
  shows "num_posts si = 2" and "actual_beam_span si = 4"
    and "beam_bottom_z si (mk_LumberSpec ''2x6'' 1.5 5.5) (mk_LumberSpec ''2x6'' 1.5 5.5)
           = height_ft si - 1"
proof -
  show np: "num_posts si = 2" using num_posts_cases [of si] assms(1) by simp
  show "actual_beam_span si = 4" by (simp add: actual_beam_span_def np assms(1))
  show "beam_bottom_z si (mk_LumberSpec ''2x6'' 1.5 5.5) (mk_LumberSpec ''2x6'' 1.5 5.5)
           = height_ft si - 1"
    by (simp add: beam_bottom_z_value mk_LumberSpec_def)
qed

lemma range_int_2: "range_int 2 = [0, 1]"
  by (simp add: range_int_def upt_rec)


lemma mk_SiteInput_sel:
  "width_ft (mk_SiteInput w d h) = w"
  "depth_ft (mk_SiteInput w d h) = d"
  "height_ft (mk_SiteInput w d h) = h"
  "ledger_attachment (mk_SiteInput w d h) = DIRECT"
  "soil_bearing_psf (mk_SiteInput w d h) = 1500"
  "frost_depth_in (mk_SiteInput w d h) = 18"
  by (simp_all add: mk_SiteInput_def)

section \<open>Claims about \<^verbatim>\<open>generate_structure\<close>\<close>

text \<open>C1, as amended. For every input on which \<^verbatim>\<open>generate_structure\<close> returns a compliant
  structure, the members are stacked decking surface (height) \<ge> joist top > joist bottom
  = beam top > beam bottom = post top, and every footing is as deep as the frost depth.
  The post top is above grade exactly when the height exceeds the decking thickness plus
  the joist depth plus the beam depth, which holds whenever the height is above 47/24
  feet (23.5 inches); the footing bottom is below grade when the frost depth is
  positive. Beams, posts and footings are never empty, and joists are not when the
  width is not negative.\<close>

theorem elevation_order:
  assumes "generate_structure si = Inr s" and "compliant s"
  shows
   "(\<forall>j\<in>set (joists s).
       joist_z_ft j + lumber_height_ft (joist_lumber j) \<le> height_ft si \<and>
       joist_z_ft j < joist_z_ft j + lumber_height_ft (joist_lumber j)) \<and>
    (\<forall>j\<in>set (joists s). \<forall>b\<in>set (beams s).
       joist_z_ft j = beam_z_ft b + lumber_height_ft (beam_lumber b)) \<and>
    (\<forall>b\<in>set (beams s). beam_z_ft b < beam_z_ft b + lumber_height_ft (beam_lumber b)) \<and>
    (\<forall>b\<in>set (beams s). \<forall>p\<in>set (posts s). beam_z_ft b = post_height_ft p) \<and>
    (\<forall>j\<in>set (joists s). \<forall>b\<in>set (beams s). \<forall>p\<in>set (posts s).
       (0 < post_height_ft p) =
       (decking_thickness_ft + lumber_height_ft (joist_lumber j)
          + lumber_height_ft (beam_lumber b) < height_ft si)) \<and>
    (47 / 24 < height_ft si \<longrightarrow> (\<forall>p\<in>set (posts s). 0 < post_height_ft p)) \<and>
    (\<forall>f\<in>set (footings s). footing_depth_in f = frost_depth_in si) \<and>
    (0 < frost_depth_in si \<longrightarrow>
       (\<forall>f\<in>set (footings s). - (real_of_int (footing_depth_in f) / 12) < 0)) \<and>
    beams s \<noteq> [] \<and> posts s \<noteq> [] \<and> footings s \<noteq> [] \<and>
    (0 \<le> width_ft si \<longrightarrow> joists s \<noteq> [])"
proof -
  from generate_structure_complete [OF assms [unfolded generate_structure_def]]
  obtain j_size jl b_size b_ply bl p_size pl d where
    sj: "select_joist_size_in JOIST_SPANS (joist_span_ft si) 16 = Inr j_size" and
    lj: "LUMBER_SPECS j_size = Some jl" and
    sb: "select_beam_size (actual_beam_span si) (joist_span_ft si) = Inr (b_size, b_ply)" and
    lb: "LUMBER_SPECS b_size = Some bl" and
    s: "s = assembled si j_size jl b_size b_ply bl p_size pl d"
    by blast
  have hj: "0 < height_in jl \<and> height_in jl \<le> 11.25"
    using lumber_of_joist_size [OF select_joist_size_in_member [OF sj]] lj by auto
  have hb: "0 < height_in bl \<and> height_in bl \<le> 11.25"
    using lumber_of_joist_size [of b_size] select_beam_size_member [OF sb] lb by auto
  have J: "joists s = gen_joists si 16 (joist_bottom_z si jl) jl"
    and B: "beams s = gen_beams si (beam_bottom_z si jl bl) bl b_ply"
    and P: "posts s = gen_posts si (beam_bottom_z si jl bl) pl"
    and F: "footings s = gen_footings si d"
    by (simp_all add: s assembled_def)
  have jz: "joist_bottom_z si jl = height_ft si - 1 / 12 - height_in jl / 12"
    by (simp add: joist_bottom_z_def joist_top_z_def decking_thickness_ft_def
        lumber_height_ft_def)
  note bz = beam_bottom_z_value [of si jl bl]
  have c1: "\<forall>j\<in>set (joists s).
       joist_z_ft j + lumber_height_ft (joist_lumber j) \<le> height_ft si \<and>
       joist_z_ft j < joist_z_ft j + lumber_height_ft (joist_lumber j)"
    using hj by (auto simp: J jz lumber_height_ft_def dest!: gen_joists_member)
  have c2: "\<forall>j\<in>set (joists s). \<forall>b\<in>set (beams s).
       joist_z_ft j = beam_z_ft b + lumber_height_ft (beam_lumber b)"
    by (auto simp: J B jz bz lumber_height_ft_def dest!: gen_joists_member gen_beams_member)
  have c3: "\<forall>b\<in>set (beams s). beam_z_ft b < beam_z_ft b + lumber_height_ft (beam_lumber b)"
    using hb by (auto simp: B lumber_height_ft_def dest!: gen_beams_member)
  have c4: "\<forall>b\<in>set (beams s). \<forall>p\<in>set (posts s). beam_z_ft b = post_height_ft p"
    by (auto simp: B P dest!: gen_beams_member gen_posts_member)
  have c5: "\<forall>j\<in>set (joists s). \<forall>b\<in>set (beams s). \<forall>p\<in>set (posts s).
       (0 < post_height_ft p) =
       (decking_thickness_ft + lumber_height_ft (joist_lumber j)
          + lumber_height_ft (beam_lumber b) < height_ft si)"
    by (auto simp: J B P bz lumber_height_ft_def decking_thickness_ft_def
        dest!: gen_joists_member gen_beams_member gen_posts_member)
  have c6: "47 / 24 < height_ft si \<longrightarrow> (\<forall>p\<in>set (posts s). 0 < post_height_ft p)"
    using hj hb by (auto simp: P bz dest!: gen_posts_member)
  have c7: "\<forall>f\<in>set (footings s). footing_depth_in f = frost_depth_in si"
    by (auto simp: F dest!: gen_footings_member)
  have c8: "0 < frost_depth_in si \<longrightarrow>
       (\<forall>f\<in>set (footings s). - (real_of_int (footing_depth_in f) / 12) < 0)"
    by (auto simp: F dest!: gen_footings_member)
  have c9: "beams s \<noteq> [] \<and> posts s \<noteq> [] \<and> footings s \<noteq> []"
    by (simp add: B P F gen_beams_nonempty gen_posts_nonempty gen_footings_nonempty)
  have c10: "0 \<le> width_ft si \<longrightarrow> joists s \<noteq> []"
    by (simp add: J gen_joists_nonempty)
  from c1 c2 c3 c4 c5 c6 c7 c8 c9 c10 show ?thesis by blast
qed

theorem elevation_order_witness:
  "\<not> isl (generate_structure (mk_SiteInput 4 4 3)) \<and>
   compliant (projr (generate_structure (mk_SiteInput 4 4 3))) \<and>
   47 / 24 < height_ft (mk_SiteInput 4 4 3) \<and>
   0 < frost_depth_in (mk_SiteInput 4 4 3) \<and>
   map joist_z_ft (joists (projr (generate_structure (mk_SiteInput 4 4 3))))
     = [59 / 24, 59 / 24, 59 / 24, 59 / 24] \<and>
   map beam_z_ft (beams (projr (generate_structure (mk_SiteInput 4 4 3)))) = [2] \<and>
   map post_height_ft (posts (projr (generate_structure (mk_SiteInput 4 4 3)))) = [2, 2] \<and>
   map footing_depth_in (footings (projr (generate_structure (mk_SiteInput 4 4 3))))
     = [18, 18]"
proof -
  have g: "generate_structure (mk_SiteInput 4 4 3) =
    Inr (assembled (mk_SiteInput 4 4 3) ''2x6'' (mk_LumberSpec ''2x6'' 1.5 5.5) ''2x6'' 2
           (mk_LumberSpec ''2x6'' 1.5 5.5) ''4x4'' (mk_LumberSpec ''4x4'' 3.5 3.5) 12)"
    by (rule small_deck_run)
      (simp_all add: mk_SiteInput_sel select_post_size_table LUMBER_SPECS_def)
  have c: "compliant (assembled (mk_SiteInput 4 4 3) ''2x6'' (mk_LumberSpec ''2x6'' 1.5 5.5)
           ''2x6'' 2 (mk_LumberSpec ''2x6'' 1.5 5.5) ''4x4'' (mk_LumberSpec ''4x4'' 3.5 3.5) 12)"
    by (simp add: assembled_def)
  have n: "num_posts (mk_SiteInput 4 4 3) = 2"
    by (rule small_deck_geometry) (simp_all add: mk_SiteInput_sel)
  have f: "\<lfloor>(3::real)\<rfloor> = 3" by simp
  have r4: "range_int 4 = [0, 1, 2, 3]" by (simp add: range_int_def upt_rec)
  show ?thesis
    using elevation_order [OF g c] unfolding g
    by (simp add: assembled_def gen_posts_def gen_beams_def gen_footings_def gen_joists_def
        n range_int_2 r4 beam_y_positions_def beam_bottom_z_value joist_bottom_z_def
        joist_top_z_def decking_thickness_ft_def lumber_height_ft_def num_joists_def
        joist_spacing_ft_def mk_LumberSpec_def mk_SiteInput_sel)
qed

text \<open>C1 as stated fails for a low deck: width 4, depth 4 and height 1/2 foot are all
  positive and the structure returned is compliant, yet the posts end half a foot below
  grade.\<close>

theorem elevation_order_counterexample:
  "0 < width_ft (mk_SiteInput 4 4 (1 / 2)) \<and>
   0 < depth_ft (mk_SiteInput 4 4 (1 / 2)) \<and>
   0 < height_ft (mk_SiteInput 4 4 (1 / 2)) \<and>
   \<not> isl (generate_structure (mk_SiteInput 4 4 (1 / 2))) \<and>
   compliant (projr (generate_structure (mk_SiteInput 4 4 (1 / 2)))) \<and>
   map post_height_ft (posts (projr (generate_structure (mk_SiteInput 4 4 (1 / 2)))))
     = [- (1 / 2), - (1 / 2)] \<and>
   \<not> 0 < post_height_ft (hd (posts (projr (generate_structure (mk_SiteInput 4 4 (1 / 2))))))"
proof -
  have g: "generate_structure (mk_SiteInput 4 4 (1 / 2)) =
    Inr (assembled (mk_SiteInput 4 4 (1 / 2)) ''2x6'' (mk_LumberSpec ''2x6'' 1.5 5.5)
           ''2x6'' 2 (mk_LumberSpec ''2x6'' 1.5 5.5) ''4x4'' (mk_LumberSpec ''4x4'' 3.5 3.5) 12)"
    by (rule small_deck_run)
      (simp_all add: mk_SiteInput_sel select_post_size_table LUMBER_SPECS_def)
  have n: "num_posts (mk_SiteInput 4 4 (1 / 2)) = 2"
    by (rule small_deck_geometry) (simp_all add: mk_SiteInput_sel)
  show ?thesis
    unfolding g
    by (simp add: assembled_def gen_posts_def n range_int_2 beam_y_positions_def
        beam_bottom_z_value mk_LumberSpec_def mk_SiteInput_sel)
qed

text \<open>C9. For every input on which \<^verbatim>\<open>generate_structure\<close> returns a compliant structure:
  in freestanding mode the cantilever is 0, the joist span (the span the joist selector
  is called with and the joist note reports) is half the depth, exactly two beams are
  emitted, at a third and at two thirds of the depth, and there is no ledger; the ledger
  is present exactly when the mode is not freestanding, and then exactly one beam is
  emitted, at the depth less the cantilever.\<close>

theorem beam_rows_and_ledger:
  assumes "generate_structure si = Inr s" and "compliant s"
  shows
   "(ledger_attachment si = FREESTANDING \<longrightarrow>
       cantilever_ft si = 0 \<and> joist_span_ft si = depth_ft si / 2 \<and>
       map beam_y_ft (beams s) = [depth_ft si / 3, 2 * depth_ft si / 3] \<and>
       ledger s = None) \<and>
    ((ledger s \<noteq> None) = (ledger_attachment si \<noteq> FREESTANDING)) \<and>
    (ledger_attachment si \<noteq> FREESTANDING \<longrightarrow>
       map beam_y_ft (beams s) = [depth_ft si - cantilever_ft si] \<and>
       cantilever_ft si = min 2 (0.25 * depth_ft si) \<and>
       joist_span_ft si = depth_ft si - cantilever_ft si) \<and>
    select_joist_size (joist_span_ft si) 16 = Inr (joist_size s) \<and>
    hd (structure_notes s) = JoistNote (joist_size s) 16 (joist_span_ft si)"
proof -
  from generate_structure_complete [OF assms [unfolded generate_structure_def]]
  obtain j_size jl b_size b_ply bl p_size pl d where
    sj: "select_joist_size_in JOIST_SPANS (joist_span_ft si) 16 = Inr j_size" and
    s: "s = assembled si j_size jl b_size b_ply bl p_size pl d"
    by blast
  have B: "map beam_y_ft (beams s) = beam_y_positions si"
    by (simp add: s assembled_def gen_beams_def comp_def)
  have L: "(ledger s \<noteq> None) = (ledger_attachment si \<noteq> FREESTANDING)"
    by (simp add: s assembled_def)
  have J: "joist_size s = j_size"
    and N: "hd (structure_notes s) = JoistNote j_size 16 (joist_span_ft si)"
    by (simp_all add: s assembled_def)
  show ?thesis
    using L sj
    by (auto simp: B J N beam_y_positions_def cantilever_ft_def joist_span_ft_def
        select_joist_size_def MAX_CANTILEVER_RATIO_def)
qed

theorem beam_rows_and_ledger_witness:
  "\<not> isl (generate_structure (mk_SiteInput 4 4 3)) \<and>
   compliant (projr (generate_structure (mk_SiteInput 4 4 3))) \<and>
   ledger_attachment (mk_SiteInput 4 4 3) \<noteq> FREESTANDING \<and>
   map beam_y_ft (beams (projr (generate_structure (mk_SiteInput 4 4 3)))) = [3] \<and>
   ledger (projr (generate_structure (mk_SiteInput 4 4 3))) \<noteq> None \<and>
   \<not> isl (generate_structure ((mk_SiteInput 4 4 3)\<lparr>ledger_attachment := FREESTANDING\<rparr>)) \<and>
   compliant (projr (generate_structure
     ((mk_SiteInput 4 4 3)\<lparr>ledger_attachment := FREESTANDING\<rparr>))) \<and>
   map beam_y_ft (beams (projr (generate_structure
     ((mk_SiteInput 4 4 3)\<lparr>ledger_attachment := FREESTANDING\<rparr>)))) = [4 / 3, 8 / 3] \<and>
   ledger (projr (generate_structure
     ((mk_SiteInput 4 4 3)\<lparr>ledger_attachment := FREESTANDING\<rparr>))) = None"
proof -
  have g: "generate_structure (mk_SiteInput 4 4 3) =
    Inr (assembled (mk_SiteInput 4 4 3) ''2x6'' (mk_LumberSpec ''2x6'' 1.5 5.5) ''2x6'' 2
           (mk_LumberSpec ''2x6'' 1.5 5.5) ''4x4'' (mk_LumberSpec ''4x4'' 3.5 3.5) 12)"
    by (rule small_deck_run)
      (simp_all add: mk_SiteInput_sel select_post_size_table LUMBER_SPECS_def)
  have g': "generate_structure ((mk_SiteInput 4 4 3)\<lparr>ledger_attachment := FREESTANDING\<rparr>) =
    Inr (assembled ((mk_SiteInput 4 4 3)\<lparr>ledger_attachment := FREESTANDING\<rparr>) ''2x6''
           (mk_LumberSpec ''2x6'' 1.5 5.5) ''2x6'' 2
           (mk_LumberSpec ''2x6'' 1.5 5.5) ''4x4'' (mk_LumberSpec ''4x4'' 3.5 3.5) 12)"
    by (rule small_deck_run)
      (simp_all add: mk_SiteInput_sel select_post_size_table LUMBER_SPECS_def)
  have c: "compliant (assembled si a b c d e f g h)" for si a b c d e f g h
    by (simp add: assembled_def)
  show ?thesis
    using beam_rows_and_ledger [OF g c] beam_rows_and_ledger [OF g' c] unfolding g g'
    by (simp add: c cantilever_ft_def MAX_CANTILEVER_RATIO_def mk_SiteInput_sel)
qed

text \<open>C10. The joist spacing is fixed at 16 inches on center: every structure returned
  has \<^verbatim>\<open>joist_spacing_in\<close> 16 whatever the input, the joist size of a compliant structure is
  the selector's answer at spacing 16, and the result of \<^verbatim>\<open>generate_structure\<close> is the same
  for every joist span table that agrees with \<^verbatim>\<open>JOIST_SPANS\<close> on the 16 inch column, so
  the 12 and 24 inch columns are never consulted.\<close>

theorem joist_spacing_fixed:
  "(\<forall>s. generate_structure si = Inr s \<longrightarrow> joist_spacing_in s = 16) \<and>
   (\<forall>s. generate_structure si = Inr s \<and> compliant s \<longrightarrow>
      select_joist_size (joist_span_ft si) 16 = Inr (joist_size s)) \<and>
   (\<forall>tbl. (\<forall>sz. tbl (sz, 16) = JOIST_SPANS (sz, 16)) \<longrightarrow>
      generate_structure_in tbl si = generate_structure si)"
proof (intro conjI allI impI)
  fix s assume "generate_structure si = Inr s"
  then show "joist_spacing_in s = 16"
    using generate_structure_outcomes [of JOIST_SPANS si s]
    by (simp add: generate_structure_def)
next
  fix s assume a: "generate_structure si = Inr s \<and> compliant s"
  then have "generate_structure_in JOIST_SPANS si = Inr s" and "compliant s"
    by (simp_all add: generate_structure_def)
  from generate_structure_complete [OF this]
  show "select_joist_size (joist_span_ft si) 16 = Inr (joist_size s)"
    by (auto simp: assembled_def select_joist_size_def)
next
  fix tbl :: "(string \<times> int) \<rightharpoonup> real"
  assume "\<forall>sz. tbl (sz, 16) = JOIST_SPANS (sz, 16)"
  then show "generate_structure_in tbl si = generate_structure si"
    unfolding generate_structure_def by (intro joist_table_independence) simp
qed

theorem joist_spacing_fixed_witness:
  "\<not> isl (generate_structure (mk_SiteInput 4 4 3)) \<and>
   compliant (projr (generate_structure (mk_SiteInput 4 4 3))) \<and>
   joist_spacing_in (projr (generate_structure (mk_SiteInput 4 4 3))) = 16 \<and>
   joist_size (projr (generate_structure (mk_SiteInput 4 4 3))) = ''2x6'' \<and>
   generate_structure_in (\<lambda>k. if snd k = 16 then JOIST_SPANS k else None) (mk_SiteInput 4 4 3)
     = generate_structure (mk_SiteInput 4 4 3)"
proof -
  have g: "generate_structure (mk_SiteInput 4 4 3) =
    Inr (assembled (mk_SiteInput 4 4 3) ''2x6'' (mk_LumberSpec ''2x6'' 1.5 5.5) ''2x6'' 2
           (mk_LumberSpec ''2x6'' 1.5 5.5) ''4x4'' (mk_LumberSpec ''4x4'' 3.5 3.5) 12)"
    by (rule small_deck_run)
      (simp_all add: mk_SiteInput_sel select_post_size_table LUMBER_SPECS_def)
  have t: "\<forall>sz. (\<lambda>k. if snd k = 16 then JOIST_SPANS k else None) (sz, 16) = JOIST_SPANS (sz, 16)"
    by simp
  show ?thesis
    using joist_spacing_fixed [of "mk_SiteInput 4 4 3"] t unfolding g
    by (simp add: assembled_def)
qed


text \<open>C6. For every input with depth above 0 the cantilever chosen (0 when freestanding,
  the smaller of 2 and a quarter of the depth otherwise) is at most a quarter of the depth,
  so the test guarding the cantilever error is false and no structure returned carries
  a cantilever error.\<close>

theorem cantilever_within_quarter_depth:
  assumes "0 < depth_ft si"
  shows "cantilever_ft si =
      (if ledger_attachment si = FREESTANDING then 0 else min 2 (0.25 * depth_ft si)) \<and>
    cantilever_ft si \<le> 0.25 * depth_ft si \<and>
    \<not> cantilever_ft si > depth_ft si * MAX_CANTILEVER_RATIO \<and>
    (\<forall>s a b c. generate_structure si = Inr s \<longrightarrow> CantileverMsg a b c \<notin> set (errors s))"
proof -
  have n: "\<not> cantilever_ft si > depth_ft si * MAX_CANTILEVER_RATIO"
    using assms by (simp add: cantilever_exceeded_iff)
  have e: "CantileverMsg a b c \<notin> set (errors s)" if g: "generate_structure si = Inr s"
    for s a b c
  proof -
    from g have g': "generate_structure_in JOIST_SPANS si = Inr s"
      by (simp add: generate_structure_def)
    from generate_structure_outcomes [OF g'] n
    consider "errors s = []"
      | "select_joist_size_in JOIST_SPANS (joist_span_ft si) 16
           = Inl (ValueError (hd (errors s)))" "errors s = [hd (errors s)]"
      | "select_beam_size (actual_beam_span si) (joist_span_ft si)
           = Inl (ValueError (hd (errors s)))" "errors s = [hd (errors s)]"
      by blast
    then show ?thesis
    proof cases
      case 1
      then show ?thesis by simp
    next
      case 2
      from select_joist_size_in_message [OF 2(1)] obtain x y z
        where "hd (errors s) = JoistSpanMsg x y z" by blast
      with 2(2) have "errors s = [JoistSpanMsg x y z]" by simp
      then show ?thesis by simp
    next
      case 3
      from select_beam_size_message [OF 3(1)] obtain x y
        where "hd (errors s) = BeamSpanMsg x y" by blast
      with 3(2) have "errors s = [BeamSpanMsg x y]" by simp
      then show ?thesis by simp
    qed
  qed
  have c: "cantilever_ft si \<le> 0.25 * depth_ft si"
    using n by (simp add: MAX_CANTILEVER_RATIO_def mult.commute)
  show ?thesis
    using n c e by (simp add: cantilever_ft_def MAX_CANTILEVER_RATIO_def mult.commute)
qed

theorem cantilever_within_quarter_depth_witness:
  "0 < depth_ft (mk_SiteInput 10 4 3) \<and>
   cantilever_ft (mk_SiteInput 10 4 3) = 1 \<and>
   cantilever_ft (mk_SiteInput 10 4 3) \<le> 0.25 * depth_ft (mk_SiteInput 10 4 3) \<and>
   joist_span_ft (mk_SiteInput 10 4 3) = 3"
  using cantilever_within_quarter_depth [of "mk_SiteInput 10 4 3"]
  by (simp add: mk_SiteInput_sel joist_span_ft_def)

text \<open>C5. When the joist selector, or after it the beam selector, raises its
  span-exceeded error on the spans computed from the input, \<^verbatim>\<open>generate_structure\<close> raises
  nothing: it returns a structure whose errors are exactly the selector's message, with
  compliant false and nothing generated after the failing step (no members, no ledger, no
  rim joists, no later size, no later note). When both selectors succeed, no returned
  structure carries a span-exceeded message.\<close>

theorem span_exceeded_is_recorded:
  "(\<forall>e. select_joist_size (joist_span_ft si) 16 = Inl e \<longrightarrow>
      (\<exists>m s. e = ValueError m \<and> generate_structure si = Inr s \<and>
         errors s = [m] \<and> \<not> compliant s \<and>
         footings s = [] \<and> posts s = [] \<and> beams s = [] \<and> joists s = [] \<and>
         ledger s = None \<and> rim_joists s = [] \<and> structure_notes s = [] \<and>
         joist_size s = [] \<and> beam_size s = [] \<and> post_size s = [])) \<and>
   (\<forall>j e. select_joist_size (joist_span_ft si) 16 = Inr j \<and>
          select_beam_size (actual_beam_span si) (joist_span_ft si) = Inl e \<longrightarrow>
      (\<exists>m s. e = ValueError m \<and> generate_structure si = Inr s \<and>
         errors s = [m] \<and> \<not> compliant s \<and>
         footings s = [] \<and> posts s = [] \<and> beams s = [] \<and> joists s = [] \<and>
         ledger s = None \<and> rim_joists s = [] \<and>
         structure_notes s = [JoistNote j 16 (joist_span_ft si)] \<and>
         joist_size s = j \<and> beam_size s = [] \<and> post_size s = [])) \<and>
   (\<forall>j b s. select_joist_size (joist_span_ft si) 16 = Inr j \<and>
          select_beam_size (actual_beam_span si) (joist_span_ft si) = Inr b \<and>
          generate_structure si = Inr s \<longrightarrow>
      (\<forall>x y z. JoistSpanMsg x y z \<notin> set (errors s)) \<and>
      (\<forall>x y. BeamSpanMsg x y \<notin> set (errors s)))"
proof -
  have c1: "(\<forall>e. select_joist_size (joist_span_ft si) 16 = Inl e \<longrightarrow>
      (\<exists>m s. e = ValueError m \<and> generate_structure si = Inr s \<and>
         errors s = [m] \<and> \<not> compliant s \<and>
         footings s = [] \<and> posts s = [] \<and> beams s = [] \<and> joists s = [] \<and>
         ledger s = None \<and> rim_joists s = [] \<and> structure_notes s = [] \<and>
         joist_size s = [] \<and> beam_size s = [] \<and> post_size s = []))"
  proof (intro allI impI)
    fix e
    assume a: "select_joist_size (joist_span_ft si) 16 = Inl e"
    then have long: "19.5 < joist_span_ft si"
      by (simp add: select_joist_size_16 split: if_splits)
    then have "0 < depth_ft si" by (intro joist_span_gt_imp_depth_pos) simp
    then have n: "\<not> cantilever_ft si > depth_ft si * MAX_CANTILEVER_RATIO"
      by (simp add: cantilever_exceeded_iff)
    from a obtain m where m: "e = ValueError m"
      using select_joist_size_in_result [of JOIST_SPANS "joist_span_ft si" 16]
      by (auto simp: select_joist_size_def)
    have "generate_structure si =
            Inr (record_error ((mk_DeckStructure si)\<lparr>joist_spacing_in := 16\<rparr>) m)"
      unfolding generate_structure_def
      using a m by (intro generate_structure_joist_failure [OF n]) (simp add: select_joist_size_def)
    then show "\<exists>m s. e = ValueError m \<and> generate_structure si = Inr s \<and>
           errors s = [m] \<and> \<not> compliant s \<and>
           footings s = [] \<and> posts s = [] \<and> beams s = [] \<and> joists s = [] \<and>
           ledger s = None \<and> rim_joists s = [] \<and> structure_notes s = [] \<and>
           joist_size s = [] \<and> beam_size s = [] \<and> post_size s = []"
      using m by (simp add: record_error_def mk_DeckStructure_def)
  qed
  have c2: "(\<forall>j e. select_joist_size (joist_span_ft si) 16 = Inr j \<and>
          select_beam_size (actual_beam_span si) (joist_span_ft si) = Inl e \<longrightarrow>
      (\<exists>m s. e = ValueError m \<and> generate_structure si = Inr s \<and>
         errors s = [m] \<and> \<not> compliant s \<and>
         footings s = [] \<and> posts s = [] \<and> beams s = [] \<and> joists s = [] \<and>
         ledger s = None \<and> rim_joists s = [] \<and>
         structure_notes s = [JoistNote j 16 (joist_span_ft si)] \<and>
         joist_size s = j \<and> beam_size s = [] \<and> post_size s = []))"
  proof (intro allI impI)
    fix j e
    assume a: "select_joist_size (joist_span_ft si) 16 = Inr j \<and>
            select_beam_size (actual_beam_span si) (joist_span_ft si) = Inl e"
    then have sj: "select_joist_size_in JOIST_SPANS (joist_span_ft si) 16 = Inr j"
      and sb: "select_beam_size (actual_beam_span si) (joist_span_ft si) = Inl e"
      by (simp_all add: select_joist_size_def)
    from beam_failure_needs_long_joists [OF sb] have "0 < depth_ft si"
      by (intro joist_span_gt_imp_depth_pos) simp
    then have n: "\<not> cantilever_ft si > depth_ft si * MAX_CANTILEVER_RATIO"
      by (simp add: cantilever_exceeded_iff)
    from sb obtain m where m: "e = ValueError m"
      using select_beam_size_result [of "actual_beam_span si" "joist_span_ft si"] by auto
    obtain jl where jl: "LUMBER_SPECS j = Some jl"
      using lumber_of_joist_size [OF select_joist_size_in_member [OF sj]] by blast
    have "generate_structure si =
            Inr (record_error ((mk_DeckStructure si)\<lparr>joist_spacing_in := 16,
                    joist_size := j,
                    structure_notes := [JoistNote j 16 (joist_span_ft si)]\<rparr>) m)"
      unfolding generate_structure_def
      using sb m by (intro generate_structure_beam_failure [OF n sj jl]) simp
    then show "\<exists>m s. e = ValueError m \<and> generate_structure si = Inr s \<and>
           errors s = [m] \<and> \<not> compliant s \<and>
           footings s = [] \<and> posts s = [] \<and> beams s = [] \<and> joists s = [] \<and>
           ledger s = None \<and> rim_joists s = [] \<and>
           structure_notes s = [JoistNote j 16 (joist_span_ft si)] \<and>
           joist_size s = j \<and> beam_size s = [] \<and> post_size s = []"
      using m by (simp add: record_error_def mk_DeckStructure_def)
  qed
  have c3: "(\<forall>j b s. select_joist_size (joist_span_ft si) 16 = Inr j \<and>
          select_beam_size (actual_beam_span si) (joist_span_ft si) = Inr b \<and>
          generate_structure si = Inr s \<longrightarrow>
      (\<forall>x y z. JoistSpanMsg x y z \<notin> set (errors s)) \<and>
      (\<forall>x y. BeamSpanMsg x y \<notin> set (errors s)))"
  proof (intro allI impI)
    fix j b s
    assume a: "select_joist_size (joist_span_ft si) 16 = Inr j \<and>
            select_beam_size (actual_beam_span si) (joist_span_ft si) = Inr b \<and>
            generate_structure si = Inr s"
    then have g: "generate_structure_in JOIST_SPANS si = Inr s"
      and sj: "select_joist_size_in JOIST_SPANS (joist_span_ft si) 16 = Inr j"
      and sb: "select_beam_size (actual_beam_span si) (joist_span_ft si) = Inr b"
      by (simp_all add: generate_structure_def select_joist_size_def)
    from generate_structure_outcomes [OF g] sj sb
    have "errors s = [] \<or> errors s = [CantileverMsg (cantilever_ft si)
            (depth_ft si * MAX_CANTILEVER_RATIO) (depth_ft si)]"
      by auto
    then show "(\<forall>x y z. JoistSpanMsg x y z \<notin> set (errors s)) \<and>
        (\<forall>x y. BeamSpanMsg x y \<notin> set (errors s))"
      by auto
  qed
  from c1 c2 c3 show ?thesis by (intro conjI)
qed

theorem span_exceeded_is_recorded_witness:
  "select_joist_size (joist_span_ft (mk_SiteInput 16 30 3)) 16
     = Inl (ValueError (JoistSpanMsg 28 16 19.5)) \<and>
   \<not> isl (generate_structure (mk_SiteInput 16 30 3)) \<and>
   errors (projr (generate_structure (mk_SiteInput 16 30 3))) = [JoistSpanMsg 28 16 19.5] \<and>
   \<not> compliant (projr (generate_structure (mk_SiteInput 16 30 3))) \<and>
   select_joist_size (joist_span_ft (mk_SiteInput 8 14 3)) 16 = Inr ''2x8'' \<and>
   select_beam_size (actual_beam_span (mk_SiteInput 8 14 3)) (joist_span_ft (mk_SiteInput 8 14 3))
     = Inl (ValueError (BeamSpanMsg 8 ''12'')) \<and>
   \<not> isl (generate_structure (mk_SiteInput 8 14 3)) \<and>
   errors (projr (generate_structure (mk_SiteInput 8 14 3))) = [BeamSpanMsg 8 ''12''] \<and>
   \<not> compliant (projr (generate_structure (mk_SiteInput 8 14 3))) \<and>
   select_joist_size (joist_span_ft (mk_SiteInput 4 4 3)) 16 = Inr ''2x6'' \<and>
   select_beam_size (actual_beam_span (mk_SiteInput 4 4 3)) (joist_span_ft (mk_SiteInput 4 4 3))
     = Inr (''2x6'', 2) \<and>
   \<not> isl (generate_structure (mk_SiteInput 4 4 3)) \<and>
   errors (projr (generate_structure (mk_SiteInput 4 4 3))) = []"
proof -
  have j1: "joist_span_ft (mk_SiteInput 16 30 3) = 28"
    by (simp add: joist_span_ft_def cantilever_ft_def MAX_CANTILEVER_RATIO_def mk_SiteInput_sel)
  have j2: "joist_span_ft (mk_SiteInput 8 14 3) = 12"
    by (simp add: joist_span_ft_def cantilever_ft_def MAX_CANTILEVER_RATIO_def mk_SiteInput_sel)
  have j3: "joist_span_ft (mk_SiteInput 4 4 3) = 3"
    by (simp add: joist_span_ft_def cantilever_ft_def MAX_CANTILEVER_RATIO_def mk_SiteInput_sel)
  have b2: "actual_beam_span (mk_SiteInput 8 14 3) = 8"
    using num_posts_cases [of "mk_SiteInput 8 14 3"]
    by (simp add: actual_beam_span_def mk_SiteInput_sel)
  have b3: "actual_beam_span (mk_SiteInput 4 4 3) = 4"
    by (rule small_deck_geometry) (simp_all add: mk_SiteInput_sel)
  have g: "generate_structure (mk_SiteInput 4 4 3) =
    Inr (assembled (mk_SiteInput 4 4 3) ''2x6'' (mk_LumberSpec ''2x6'' 1.5 5.5) ''2x6'' 2
           (mk_LumberSpec ''2x6'' 1.5 5.5) ''4x4'' (mk_LumberSpec ''4x4'' 3.5 3.5) 12)"
    by (rule small_deck_run)
      (simp_all add: mk_SiteInput_sel select_post_size_table LUMBER_SPECS_def)
  have s1: "select_joist_size 28 16 = Inl (ValueError (JoistSpanMsg 28 16 19.5))"
    and s2: "select_joist_size 12 16 = Inr ''2x8''"
    and s3: "select_joist_size 3 16 = Inr ''2x6''"
    by (simp_all add: select_joist_size_16)
  have t2: "select_beam_size 8 12 = Inl (ValueError (BeamSpanMsg 8 ''12''))"
    and t3: "select_beam_size 4 3 = Inr (''2x6'', 2)"
    by (simp_all add: select_beam_size_table)
  from span_exceeded_is_recorded [of "mk_SiteInput 16 30 3"]
  have w1: "\<not> isl (generate_structure (mk_SiteInput 16 30 3)) \<and>
     errors (projr (generate_structure (mk_SiteInput 16 30 3))) = [JoistSpanMsg 28 16 19.5] \<and>
     \<not> compliant (projr (generate_structure (mk_SiteInput 16 30 3)))"
    unfolding j1 s1 by auto
  from span_exceeded_is_recorded [of "mk_SiteInput 8 14 3"]
  have w2: "\<not> isl (generate_structure (mk_SiteInput 8 14 3)) \<and>
     errors (projr (generate_structure (mk_SiteInput 8 14 3))) = [BeamSpanMsg 8 ''12''] \<and>
     \<not> compliant (projr (generate_structure (mk_SiteInput 8 14 3)))"
    unfolding j2 b2 s2 t2 by auto
  have w3: "\<not> isl (generate_structure (mk_SiteInput 4 4 3)) \<and>
     errors (projr (generate_structure (mk_SiteInput 4 4 3))) = []"
    unfolding g by (simp add: assembled_def)
  show ?thesis
    unfolding j1 j2 j3 b2 b3 using w1 w2 w3 s1 s2 s3 t2 t3 by simp
qed


lemma post_limit_index:
  "sz \<in> set post_sizes \<Longrightarrow>
     dict_index POST_HEIGHT_LIMITS sz = Inr (dict_get POST_HEIGHT_LIMITS sz 0)"
  by (auto simp: post_sizes_def dict_index_def dict_get_def POST_HEIGHT_LIMITS_def)

lemma select_post_loop_find:
  "set xs \<subseteq> set post_sizes \<Longrightarrow>
     select_post_loop h xs = Inr (find (\<lambda>s. h \<le> dict_get POST_HEIGHT_LIMITS s 0) xs)"
  by (induction xs) (simp_all add: post_limit_index)

lemma select_post_size_find:
  "select_post_size h =
     Inr (case find (\<lambda>s. h \<le> dict_get POST_HEIGHT_LIMITS s 0) post_sizes of
            Some sz \<Rightarrow> sz | None \<Rightarrow> ''6x6'')"
  by (simp add: select_post_size_def select_post_loop_find split: option.splits)

text \<open>C7. For every unsupported height the post selector walks 4x4, 4x6, 6x6 in this
  order and returns the first size whose tabulated limit is at least the height; when no
  size qualifies it still returns 6x6, and it never raises. When the posts of a returned
  structure are taller than every tabulated limit, the structure has post size 6x6, its
  notes hold the advisory (verify with engineer) post note, its errors are empty and it
  is compliant.\<close>

theorem post_height_is_advisory:
  "post_sizes = [''4x4'', ''4x6'', ''6x6''] \<and>
   (\<forall>sz\<in>set post_sizes. POST_HEIGHT_LIMITS sz \<noteq> None) \<and>
   (\<exists>sz. select_post_size h = Inr sz) \<and>
   (\<forall>sz. select_post_size h = Inr sz \<longrightarrow>
      (\<exists>i<length post_sizes. sz = post_sizes ! i \<and>
         h \<le> dict_get POST_HEIGHT_LIMITS sz 0 \<and>
         (\<forall>k<i. dict_get POST_HEIGHT_LIMITS (post_sizes ! k) 0 < h)) \<or>
      (sz = ''6x6'' \<and> (\<forall>sz'\<in>set post_sizes. dict_get POST_HEIGHT_LIMITS sz' 0 < h))) \<and>
   (\<forall>s p. generate_structure si = Inr s \<and> p \<in> set (posts s) \<and>
          (\<forall>sz'\<in>set post_sizes. dict_get POST_HEIGHT_LIMITS sz' 0 < post_height_ft p) \<longrightarrow>
      post_size s = ''6x6'' \<and> nominal (post_lumber p) = ''6x6'' \<and>
      PostVerifyNote ''6x6'' (post_height_ft p) \<in> set (structure_notes s) \<and>
      errors s = [] \<and> compliant s)"
proof -
  have c1: "post_sizes = [''4x4'', ''4x6'', ''6x6'']"
    by (simp add: post_sizes_def)
  have c2: "\<forall>sz\<in>set post_sizes. POST_HEIGHT_LIMITS sz \<noteq> None"
    by (simp add: post_sizes_def POST_HEIGHT_LIMITS_def)
  have c3: "\<exists>sz. select_post_size h = Inr sz"
    by (simp add: select_post_size_find)
  have c4: "\<forall>sz. select_post_size h = Inr sz \<longrightarrow>
      (\<exists>i<length post_sizes. sz = post_sizes ! i \<and>
         h \<le> dict_get POST_HEIGHT_LIMITS sz 0 \<and>
         (\<forall>k<i. dict_get POST_HEIGHT_LIMITS (post_sizes ! k) 0 < h)) \<or>
      (sz = ''6x6'' \<and> (\<forall>sz'\<in>set post_sizes. dict_get POST_HEIGHT_LIMITS sz' 0 < h))"
  proof (intro allI impI)
    fix sz
    assume a: "select_post_size h = Inr sz"
    show "(\<exists>i<length post_sizes. sz = post_sizes ! i \<and>
         h \<le> dict_get POST_HEIGHT_LIMITS sz 0 \<and>
         (\<forall>k<i. dict_get POST_HEIGHT_LIMITS (post_sizes ! k) 0 < h)) \<or>
      (sz = ''6x6'' \<and> (\<forall>sz'\<in>set post_sizes. dict_get POST_HEIGHT_LIMITS sz' 0 < h))"
    proof (cases "find (\<lambda>s. h \<le> dict_get POST_HEIGHT_LIMITS s 0) post_sizes")
      case None
      then have "sz = ''6x6''" using a by (simp add: select_post_size_find)
      moreover from None
      have "\<forall>sz'\<in>set post_sizes. dict_get POST_HEIGHT_LIMITS sz' 0 < h"
        by (auto simp: find_None_iff not_le)
      ultimately show ?thesis by blast
    next
      case (Some x)
      then have "sz = x" using a by (simp add: select_post_size_find)
      with Some show ?thesis by (auto simp: find_Some_iff not_le)
    qed
  qed
  have c5: "\<forall>s p. generate_structure si = Inr s \<and> p \<in> set (posts s) \<and>
          (\<forall>sz'\<in>set post_sizes. dict_get POST_HEIGHT_LIMITS sz' 0 < post_height_ft p) \<longrightarrow>
      post_size s = ''6x6'' \<and> nominal (post_lumber p) = ''6x6'' \<and>
      PostVerifyNote ''6x6'' (post_height_ft p) \<in> set (structure_notes s) \<and>
      errors s = [] \<and> compliant s"
  proof (intro allI impI)
    fix s p
    assume a: "generate_structure si = Inr s \<and> p \<in> set (posts s) \<and>
          (\<forall>sz'\<in>set post_sizes. dict_get POST_HEIGHT_LIMITS sz' 0 < post_height_ft p)"
    then have g: "generate_structure_in JOIST_SPANS si = Inr s" and p: "p \<in> set (posts s)"
      by (simp_all add: generate_structure_def)
    from a have tall: "20 < post_height_ft p"
      by (simp add: post_sizes_def dict_get_def POST_HEIGHT_LIMITS_def)
    have c: "compliant s"
    proof (rule ccontr)
      assume "\<not> compliant s"
      from noncompliant_is_empty [OF g this] p show False by simp
    qed
    from generate_structure_complete [OF g c]
    obtain j_size jl b_size b_ply bl p_size pl d where
      sp: "select_post_size (beam_bottom_z si jl bl) = Inr p_size" and
      lp: "LUMBER_SPECS p_size = Some pl" and
      s: "s = assembled si j_size jl b_size b_ply bl p_size pl d"
      by blast
    have P: "posts s = gen_posts si (beam_bottom_z si jl bl) pl"
      by (simp add: s assembled_def)
    from p have h: "post_height_ft p = beam_bottom_z si jl bl" and l: "post_lumber p = pl"
      using gen_posts_member [of p si "beam_bottom_z si jl bl" pl] by (simp_all add: P)
    from sp tall have ps: "p_size = ''6x6''"
      by (simp add: h select_post_size_table split: if_splits)
    from lp have n: "nominal pl = ''6x6''"
      by (auto simp: ps LUMBER_SPECS_def mk_LumberSpec_def)
    have lim: "dict_get POST_HEIGHT_LIMITS ''6x6'' 8.0 = 20"
      by (simp add: dict_get_def POST_HEIGHT_LIMITS_def)
    have vn: "PostVerifyNote ''6x6'' (post_height_ft p) \<in> set (structure_notes s)"
      using tall unfolding s assembled_def ps h lim by simp
    show "post_size s = ''6x6'' \<and> nominal (post_lumber p) = ''6x6'' \<and>
      PostVerifyNote ''6x6'' (post_height_ft p) \<in> set (structure_notes s) \<and>
      errors s = [] \<and> compliant s"
      using vn c n l by (simp add: s assembled_def ps)
  qed
  from c1 c2 c3 c4 c5 show ?thesis by (intro conjI)
qed

theorem post_height_is_advisory_witness:
  "select_post_size 10 = Inr ''4x6'' \<and>
   10 \<le> dict_get POST_HEIGHT_LIMITS ''4x6'' 0 \<and>
   dict_get POST_HEIGHT_LIMITS ''4x4'' 0 < 10 \<and>
   select_post_size 24 = Inr ''6x6'' \<and>
   dict_get POST_HEIGHT_LIMITS ''6x6'' 0 < 24 \<and>
   \<not> isl (generate_structure (mk_SiteInput 4 4 25)) \<and>
   map post_height_ft (posts (projr (generate_structure (mk_SiteInput 4 4 25)))) = [24, 24] \<and>
   post_size (projr (generate_structure (mk_SiteInput 4 4 25))) = ''6x6'' \<and>
   structure_notes (projr (generate_structure (mk_SiteInput 4 4 25))) ! 2
     = PostVerifyNote ''6x6'' 24 \<and>
   errors (projr (generate_structure (mk_SiteInput 4 4 25))) = [] \<and>
   compliant (projr (generate_structure (mk_SiteInput 4 4 25)))"
proof -
  have g: "generate_structure (mk_SiteInput 4 4 25) =
    Inr (assembled (mk_SiteInput 4 4 25) ''2x6'' (mk_LumberSpec ''2x6'' 1.5 5.5) ''2x6'' 2
           (mk_LumberSpec ''2x6'' 1.5 5.5) ''6x6'' (mk_LumberSpec ''6x6'' 5.5 5.5) 12)"
    by (rule small_deck_run)
      (simp_all add: mk_SiteInput_sel select_post_size_table LUMBER_SPECS_def)
  have n: "num_posts (mk_SiteInput 4 4 25) = 2"
    by (rule small_deck_geometry) (simp_all add: mk_SiteInput_sel)
  have lim: "dict_get POST_HEIGHT_LIMITS ''6x6'' 8.0 = 20"
    by (simp add: dict_get_def POST_HEIGHT_LIMITS_def)
  show ?thesis
    using post_height_is_advisory [of 10 "mk_SiteInput 4 4 25"]
      post_height_is_advisory [of 24 "mk_SiteInput 4 4 25"]
    unfolding g
    by (simp add: assembled_def gen_posts_def n range_int_2 beam_y_positions_def
        beam_bottom_z_value mk_LumberSpec_def mk_SiteInput_sel select_post_size_table
        dict_get_def POST_HEIGHT_LIMITS_def)
qed


end
